theory Spec2Isabelle
  imports Main
begin

section \<open>JavaScript strings, values and errors\<close>

text \<open>
  The statement builder of \<^verbatim>\<open>lib/modules/models/table.js\<close> is embedded as pure
  functions. Strings are character lists. A \<^verbatim>\<open>throw new Error(msg)\<close> of the source is
  the value \<open>Inl (Error msg)\<close>; a failure of the JavaScript runtime itself (reading a
  member of \<^verbatim>\<open>undefined\<close>, calling something that is not a function) is
  \<open>Inl (TypeError what)\<close>, where \<open>what\<close> names the expression that failed.
  \<open>Inl (Unmodelled what)\<close> marks an input on which the behaviour depends on the
  JavaScript engine or on code that is not among the sources; nothing is proved there.
\<close>

datatype error = Error string | TypeError string | Unmodelled string

definition quote :: "string \<Rightarrow> string" where
  "quote s = [CHR 0x22] @ s @ [CHR 0x22]"

text \<open>\<^verbatim>\<open>Array.prototype.join\<close> on an array of strings.\<close>

fun join :: "string \<Rightarrow> string list \<Rightarrow> string" where
  "join sep [] = []"
| "join sep [x] = x"
| "join sep (x # y # ys) = x @ sep @ join sep (y # ys)"

text \<open>
  \<^verbatim>\<open>keyPath.split('.', 2)\<close>: the part before the first dot and, when there is a dot,
  the part between the first and the second dot.
\<close>

definition split_dot2 :: "string \<Rightarrow> string \<times> string option" where
  "split_dot2 s =
     (let a = takeWhile (\<lambda>c. c \<noteq> CHR ''.'') s; r = dropWhile (\<lambda>c. c \<noteq> CHR ''.'') s
      in case r of [] \<Rightarrow> (a, None)
         | _ # r' \<Rightarrow> (a, Some (takeWhile (\<lambda>c. c \<noteq> CHR ''.'') r')))"

text \<open>
  The values a where map or a set map holds. Numbers are integers here (fractions play
  no role in statement construction). \<open>VQueryValue v\<close> is an object with a
  \<^verbatim>\<open>toQueryValue\<close> method returning \<open>v\<close>; \<open>VBuilder\<close> is a knex query builder,
  the one the source itself builds in \<^verbatim>\<open>createSearchStatement\<close>. An object is the list
  of its own enumerable keys in \<^verbatim>\<open>Object.keys\<close> order.
\<close>

datatype subquery = Subquery (sq_columns: "string list") (sq_from: string)
  (sq_whereRaw: string) (sq_bindings: "string list")

datatype jsval =
    VUndefined
  | VNull
  | VBool bool
  | VNum int
  | VStr string
  | VDate int
  | VArray "jsval list"
  | VObject "(string \<times> jsval) list"
  | VQueryValue jsval
  | VBuilder subquery

fun truthy :: "jsval \<Rightarrow> bool" where
  "truthy VUndefined = False"
| "truthy VNull = False"
| "truthy (VBool b) = b"
| "truthy (VNum n) = (n \<noteq> 0)"
| "truthy (VStr s) = (s \<noteq> [])"
| "truthy _ = True"

text \<open>
  \<^verbatim>\<open>value && typeof value.toQueryValue == 'function' ? value.toQueryValue() : value\<close>
\<close>

fun toQueryValue :: "jsval \<Rightarrow> jsval" where
  "toQueryValue (VQueryValue v) = v"
| "toQueryValue v = v"

text \<open>
  A lookup \<^verbatim>\<open>table[key]\<close> in an object literal also finds the members every object
  inherits from \<^verbatim>\<open>Object.prototype\<close>. These are their names; each is a function, but
  \<^verbatim>\<open>__proto__\<close>, which is the prototype object itself.
\<close>

definition object_prototype_names :: "string list" where
  "object_prototype_names =
     [''constructor'', ''toString'', ''toLocaleString'', ''valueOf'', ''hasOwnProperty'',
      ''isPrototypeOf'', ''propertyIsEnumerable'', ''__proto__'', ''__defineGetter__'',
      ''__defineSetter__'', ''__lookupGetter__'', ''__lookupSetter__'']"

text \<open>\<^verbatim>\<open>obj[key]\<close> read for its truth value, \<open>obj\<close> an object literal.\<close>

definition truthy_member :: "(string \<times> jsval) list \<Rightarrow> string \<Rightarrow> bool" where
  "truthy_member obj k =
     (case map_of obj k of Some v \<Rightarrow> truthy v | None \<Rightarrow> k \<in> set object_prototype_names)"

text \<open>
  \<^verbatim>\<open>obj[key] = v\<close>: an own key keeps its place in the key order, a new key goes last.
\<close>

fun assign :: "(string \<times> jsval) list \<Rightarrow> string \<Rightarrow> jsval \<Rightarrow> (string \<times> jsval) list" where
  "assign [] k v = [(k, v)]"
| "assign ((k', v') # kvs) k v = (if k' = k then (k, v) # kvs else (k', v') # assign kvs k v)"

text \<open>The loop \<^verbatim>\<open>xs.forEach(f)\<close> over a state, stopping at the first throw.\<close>

fun forEach :: "('a \<Rightarrow> 's \<Rightarrow> error + 's) \<Rightarrow> 'a list \<Rightarrow> 's \<Rightarrow> error + 's" where
  "forEach f [] s = Inr s"
| "forEach f (x # xs) s = (case f x s of Inl e \<Rightarrow> Inl e | Inr s' \<Rightarrow> forEach f xs s')"

section \<open>Properties, models and tables\<close>

text \<open>
  A property as \<^verbatim>\<open>table.js\<close> reads it: its own members, the results of its
  predicates (\<^verbatim>\<open>isAllowed()\<close>, \<^verbatim>\<open>isAssociation()\<close>, \<^verbatim>\<open>isManyToMany()\<close>),
  and the members of \<^verbatim>\<open>property.options\<close>. Models are referred to by name and
  looked up in the environment. \<open>relationshipVia\<close> is the property on the other side
  of an association, with the members the source reads from it.
\<close>

record propertyRef =
  ref_columnName :: string
  ref_allowed :: bool
  ref_model :: string
  ref_throughPropertyName :: "string option"

record property =
  name :: string
  columnName :: string
  columnNameIndicator :: string
  clauses :: "string list"
  model :: string
  isAllowed :: bool
  isAssociation :: bool
  isManyToMany :: bool
  associatedModel :: "string option"
  required :: bool
  hasOne :: "string option"
  hasMany :: "string option"
  belongsTo :: bool
  autoFetch :: bool
  autoFetchProperties :: "string list option"
  through :: "string option"
  throughPropertyName :: "string option"
  relationshipVia :: "propertyRef option"
  counting :: "string option"
  sqlish :: "string option"
  isAggregate :: bool
  isHidden :: bool
  isVirtual :: bool
  rawWhere :: "string option"

text \<open>
  Modelled from the spec: \<^verbatim>\<open>model.js\<close> is not among the sources. A model is a name, the
  name of its table (\<^verbatim>\<open>inflection.tableize\<close> of the model name, computed by the
  \<^verbatim>\<open>Table\<close> constructor), its properties in declaration order
  (\<^verbatim>\<open>getAllProperties()\<close>) and its associations (\<^verbatim>\<open>getAssociations()\<close> and
  \<^verbatim>\<open>getAllAssociations()\<close>, which both return the model's associations).
\<close>

record model =
  modelName :: string
  tableName :: string
  modelProperties :: "property list"
  modelAssociations :: "property list"

text \<open>
  The environment of the module: the models by name, and what the source uses of code
  that is not among the sources, taken as parameters: the two functions of the
  \<^verbatim>\<open>inflection\<close> library it calls, \<^verbatim>\<open>underscore(s)\<close> and
  \<^verbatim>\<open>camelize(s, true)\<close>; \<^verbatim>\<open>through.findAssociationsTo(model)\<close> of
  \<^verbatim>\<open>model.js\<close>, given the through model and the name of the target model; and the own
  enumerable members of a knex query builder, which \<^verbatim>\<open>Object.keys\<close> lists when a
  builder is taken for a plain object.
\<close>

record env =
  models :: "(string \<times> model) list"
  underscore :: "string \<Rightarrow> string"
  camelize :: "string \<Rightarrow> string"
  findAssociationsTo :: "model \<Rightarrow> string \<Rightarrow> property list"
  builderMembers :: "(string \<times> jsval) list"

record table =
  tname :: string
  tmodel :: model

definition findModel :: "env \<Rightarrow> string \<Rightarrow> model option" where
  "findModel E n = map_of (models E) n"

definition findProperty :: "model \<Rightarrow> string \<Rightarrow> property option" where
  "findProperty m n = find (\<lambda>p. name p = n) (modelProperties m)"

text \<open>
  Modelled from the spec: \<^verbatim>\<open>Model.prototype.getProperty\<close> is in \<^verbatim>\<open>model.js\<close>. It
  returns the property or a null result; a dotted key path \<^verbatim>\<open>assoc.property\<close>
  resolves to the property of the model the association points to.
\<close>

definition model_getProperty :: "env \<Rightarrow> model \<Rightarrow> string \<Rightarrow> property option" where
  "model_getProperty E m keyPath =
     (case split_dot2 keyPath of
        (a, None) \<Rightarrow> findProperty m a
      | (a, Some b) \<Rightarrow>
          (case findProperty m a of
             None \<Rightarrow> None
           | Some fp \<Rightarrow>
               (case associatedModel fp of
                  None \<Rightarrow> None
                | Some mn \<Rightarrow>
                    (case findModel E mn of
                       None \<Rightarrow> None
                     | Some am \<Rightarrow> findProperty am b))))"

definition getProperty :: "env \<Rightarrow> table \<Rightarrow> string \<Rightarrow> property option" where
  "getProperty E t propertyName = model_getProperty E (tmodel t) propertyName"

definition getFirstProperty :: "env \<Rightarrow> table \<Rightarrow> string \<Rightarrow> property option" where
  "getFirstProperty E t keyPath =
     (case split_dot2 keyPath of
        (a, Some b) \<Rightarrow> getProperty E t a
      | (a, None) \<Rightarrow> None)"

definition getName :: "table \<Rightarrow> string" where
  "getName t = quote (tname t)"

definition getTable :: "model \<Rightarrow> table" where
  "getTable m = \<lparr>tname = tableName m, tmodel = m\<rparr>"

definition getAssociations :: "table \<Rightarrow> property list" where
  "getAssociations t = modelAssociations (tmodel t)"

section \<open>Schema statements\<close>

text \<open>
  \<^verbatim>\<open>alterStatement\<close> reads and writes the properties it is given: for a changed
  property \<^verbatim>\<open>property.clauses.splice(1)\<close> returns the clauses after the first and
  removes them from the property's array. The properties therefore live in a heap, and
  the three arguments are lists of references (\<open>None\<close> for an argument that is
  \<^verbatim>\<open>null\<close> or left out). The result is the text handed to \<^verbatim>\<open>knex.raw\<close> and the
  heap after the call.
\<close>

type_synonym heap = "nat \<Rightarrow> property"

definition clauses0 :: "string list \<Rightarrow> string" where
  "clauses0 cs = (case cs of [] \<Rightarrow> ''undefined'' | c # _ \<Rightarrow> c)"

definition addColumn :: "heap \<Rightarrow> nat \<Rightarrow> string list \<Rightarrow> string list" where
  "addColumn h r cols =
     (let p = h r in
      if isAllowed p
      then cols @ [[CHR 0x09] @ '' ADD COLUMN '' @ quote (columnName p) @ '' '' @ join '' '' (clauses p)]
      else cols)"

definition dropColumn :: "heap \<Rightarrow> nat \<Rightarrow> string list \<Rightarrow> string list" where
  "dropColumn h r cols =
     (let p = h r in
      if isAllowed p
      then cols @ [[CHR 0x09] @ '' DROP COLUMN '' @ quote (columnName p)]
      else cols)"

definition alterColumn :: "nat \<Rightarrow> heap \<times> string list \<Rightarrow> heap \<times> string list" where
  "alterColumn r hc =
     (let h = fst hc; cols = snd hc; p = h r in
      if isAllowed p
      then (h(r := p\<lparr>clauses := take 1 (clauses p)\<rparr>),
            cols @ [[CHR 0x09] @ '' ALTER COLUMN '' @ quote (columnName p) @ '' TYPE '' @
                    clauses0 (clauses p) @ '' SET '' @ join '' '' (drop 1 (clauses p))])
      else (h, cols))"

definition alterStatement ::
  "table \<Rightarrow> heap \<Rightarrow> nat list option \<Rightarrow> nat list option \<Rightarrow> nat list option \<Rightarrow> string \<times> heap" where
  "alterStatement t h addedProperties removedProperties changedProperties =
     (let clause = ''ALTER TABLE '' @ getName t @ [CHR 0x0A];
          columns = foldl (\<lambda>cols r. addColumn h r cols) []
                      (case addedProperties of None \<Rightarrow> [] | Some rs \<Rightarrow> rs);
          columns = foldl (\<lambda>cols r. dropColumn h r cols) columns
                      (case removedProperties of None \<Rightarrow> [] | Some rs \<Rightarrow> rs);
          hc = foldl (\<lambda>hc r. alterColumn r hc) (h, columns)
                      (case changedProperties of None \<Rightarrow> [] | Some rs \<Rightarrow> rs)
      in (clause @ join ('','' @ [CHR 0x0A]) (snd hc) @ [CHR 0x0A] @ '';'', fst hc))"

section \<open>The query builder\<close>

text \<open>
  A knex query builder is the record of the calls made on it. The source hands a
  callback to \<^verbatim>\<open>where\<close>, \<^verbatim>\<open>orWhere\<close> and \<^verbatim>\<open>whereExists\<close> and does not run it: the
  call returns, and the clause it records holds what the callback does when knex runs it
  on a builder of its own, the where clauses it adds or the error it throws. knex (the
  modules \<^verbatim>\<open>knex/lib/query/builder\<close> and \<^verbatim>\<open>knex/lib/raw\<close> the source requires) is
  not part of the repository; it keeps such a callback with the statement and runs it
  when the statement is compiled into SQL. A where value is kept as the JavaScript value
  it was given.
\<close>

datatype clause =
    Where string jsval
  | WhereOp string "string option" jsval
  | OrWhere string jsval
  | WhereNull string
  | WhereIn string jsval
  | WhereNotIn string "jsval list"
  | WhereRaw string "jsval list"
  | WhereWrapped "error + clause list"
  | OrWhereWrapped "error + clause list"
  | WhereExists "error + string \<times> clause list"

datatype joinType = InnerJoin | LeftOuterJoin

datatype joinClause = Join (join_type: joinType) (join_table: string) (join_first: string)
  (join_second: string)

text \<open>
  A selected or returned column: a name, or \<^verbatim>\<open>knex.raw(sql).wrap(before, after)\<close>,
  kept as the three texts.
\<close>

datatype column = Column string | RawColumn string string string

datatype queryMethod = SelectMethod | DeleteMethod | UpdateMethod | InsertMethod

datatype setValue = SetValue jsval | SetRaw string

datatype counter = Increment string jsval | Decrement string jsval

record query =
  q_method :: queryMethod
  q_from :: string
  q_columns :: "column list"
  q_joins :: "joinClause list"
  q_wheres :: "clause list"
  q_orderBy :: "(string \<times> string) list"
  q_groupBy :: "string list"
  q_limit :: "int option"
  q_offset :: "int option"
  q_returning :: "column list option"
  q_update :: "(string \<times> setValue) list option"
  q_counters :: "counter list"

definition knex_from :: "string \<Rightarrow> query" where
  "knex_from n = \<lparr>q_method = SelectMethod, q_from = n, q_columns = [], q_joins = [],
     q_wheres = [], q_orderBy = [], q_groupBy = [], q_limit = None, q_offset = None,
     q_returning = None, q_update = None, q_counters = []\<rparr>"

definition addColumnTo :: "column \<Rightarrow> query \<Rightarrow> query" where
  "addColumnTo c q = q\<lparr>q_columns := q_columns q @ [c]\<rparr>"

definition addJoin :: "joinType \<Rightarrow> string \<Rightarrow> string \<Rightarrow> string \<Rightarrow> query \<Rightarrow> query" where
  "addJoin k tbl a b q = q\<lparr>q_joins := q_joins q @ [Join k tbl a b]\<rparr>"

definition addWhere :: "clause \<Rightarrow> query \<Rightarrow> query" where
  "addWhere c q = q\<lparr>q_wheres := q_wheres q @ [c]\<rparr>"

definition orderBy :: "string \<Rightarrow> string \<Rightarrow> query \<Rightarrow> query" where
  "orderBy c d q = q\<lparr>q_orderBy := q_orderBy q @ [(c, d)]\<rparr>"

definition groupBy :: "string \<Rightarrow> query \<Rightarrow> query" where
  "groupBy c q = q\<lparr>q_groupBy := q_groupBy q @ [c]\<rparr>"

text \<open>
  The statement a factory method returns: a query builder, or
  \<^verbatim>\<open>knex.raw('WITH "name" AS (?) ?', [withQuery, query])\<close>.
\<close>

datatype statement = Plain (outer: query) | With (cte_name: string) (inner: query) (outer: query)

section \<open>Joins and aliases\<close>

definition truthyName :: "string option \<Rightarrow> bool" where
  "truthyName s = (case s of None \<Rightarrow> False | Some n \<Rightarrow> n \<noteq> [])"

definition getAssociatedModel :: "env \<Rightarrow> property \<Rightarrow> model option" where
  "getAssociatedModel E p = (case associatedModel p of None \<Rightarrow> None | Some n \<Rightarrow> findModel E n)"

text \<open>
  Modelled from the spec: \<^verbatim>\<open>through.getProperty(name)\<close> with a name that was never
  linked (\<^verbatim>\<open>undefined\<close>) finds no property.
\<close>

definition getLinkedProperty :: "env \<Rightarrow> model \<Rightarrow> string option \<Rightarrow> property option" where
  "getLinkedProperty E m n = (case n of None \<Rightarrow> None | Some pn \<Rightarrow> model_getProperty E m pn)"

text \<open>The three aliases of \<^verbatim>\<open>addJoinStatement\<close> and \<^verbatim>\<open>addSelectColumnsForAssociation\<close>.\<close>

definition previousAlias :: "table \<Rightarrow> property list \<Rightarrow> string" where
  "previousAlias t associations = join ''_'' (tname t # map name (butlast associations))"

definition joinAlias :: "table \<Rightarrow> property list \<Rightarrow> string" where
  "joinAlias t associations = tname t @ ''_'' @ join ''_'' (map name associations)"

definition selectAlias :: "table \<Rightarrow> property list \<Rightarrow> string" where
  "selectAlias t associations = join ''_'' (tname t # map name associations)"

definition addManyToManyJoin ::
  "env \<Rightarrow> table \<Rightarrow> query \<Rightarrow> property list \<Rightarrow> property \<Rightarrow> error + query" where
  "addManyToManyJoin E t query associations association =
     (case (case through association of None \<Rightarrow> None | Some n \<Rightarrow> findModel E n) of
        None \<Rightarrow> Inl (TypeError ''association.options.through'')
      | Some thr \<Rightarrow>
          let associatedTable = getTable thr;
              relation1Property = getLinkedProperty E thr (throughPropertyName association)
          in (case relationshipVia association of
                None \<Rightarrow> Inl (TypeError ''association.options.relationshipVia'')
              | Some via \<Rightarrow>
                  let relation2Property = getLinkedProperty E thr (ref_throughPropertyName via)
                  in (case relation1Property of
                        None \<Rightarrow> Inl (Error (''Could not find property `'' @ camelize E (model association)
                                  @ ''` on `'' @ modelName thr @ ''`.''))
                      | Some r1 \<Rightarrow>
                          (case getAssociatedModel E association of
                             None \<Rightarrow> Inl (TypeError ''association.getAssociatedModel()'')
                           | Some am \<Rightarrow>
                               (case relation2Property of
                                  None \<Rightarrow> Inl (Error (''Could not find property `'' @
                                            camelize E (modelName am) @ ''` on `'' @ modelName thr @ ''`.''))
                                | Some r2 \<Rightarrow>
                                    Inr (addJoin LeftOuterJoin
                                           (tname (getTable am) @ '' as '' @ joinAlias t associations)
                                           (tname associatedTable @ ''.'' @ columnName r2)
                                           (joinAlias t associations @ ''.id'')
                                        (addJoin LeftOuterJoin (tname associatedTable)
                                           (tname associatedTable @ ''.'' @ columnName r1)
                                           (previousAlias t associations @ ''.id'') query)))))))"

definition addDirectJoin ::
  "env \<Rightarrow> table \<Rightarrow> query \<Rightarrow> property list \<Rightarrow> property \<Rightarrow> error + query" where
  "addDirectJoin E t query associations association =
     (case getAssociatedModel E association of
        None \<Rightarrow> Inl (TypeError ''association.getAssociatedModel()'')
      | Some am \<Rightarrow>
          let referenceTableName = tname (getTable am);
              joinType = (if required association then InnerJoin else LeftOuterJoin);
              alias = joinAlias t associations
          in if truthyName (hasOne association) then
               (case getLinkedProperty E am (hasOne association) of
                  None \<Rightarrow> Inl (TypeError ''associationProperty.columnName'')
                | Some associationProperty \<Rightarrow>
                    Inr (addJoin joinType (referenceTableName @ '' as '' @ alias)
                           (previousAlias t associations @ ''.id'')
                           (alias @ ''.'' @ columnName associationProperty) query))
             else if truthyName (hasMany association) then
               (case getLinkedProperty E am (hasMany association) of
                  None \<Rightarrow> Inl (Error (''Could not find association property `'' @ the (hasMany association)
                            @ ''` on `'' @ model association @ ''`.''))
                | Some associationProperty \<Rightarrow>
                    Inr (addJoin joinType (referenceTableName @ '' as '' @ alias)
                           (previousAlias t associations @ ''.'' @ ''id'')
                           (alias @ ''.'' @ columnName associationProperty) query))
             else if belongsTo association then
               Inr (addJoin joinType (referenceTableName @ '' as '' @ alias)
                      (previousAlias t associations @ ''.'' @ columnName association)
                      (alias @ ''.id'') query)
             else if autoFetch association then
               Inl (Error (''Unknown association type in `'' @ name association @ ''`.''))
             else Inr query)"

definition addJoinStatement :: "env \<Rightarrow> table \<Rightarrow> query \<Rightarrow> property list \<Rightarrow> error + query" where
  "addJoinStatement E t query associations =
     (if associations = [] then Inl (TypeError ''association.isManyToMany'')
      else let association = last associations
           in if isManyToMany association
              then addManyToManyJoin E t query associations association
              else addDirectJoin E t query associations association)"


section \<open>String operations of the source\<close>

text \<open>The decimal text of an array index, as \<^verbatim>\<open>Object.keys\<close> of an array lists it.\<close>

fun string_of_nat :: "nat \<Rightarrow> string" where
  "string_of_nat n =
     (if n < 10 then [''0123456789'' ! n]
      else string_of_nat (n div 10) @ [''0123456789'' ! (n mod 10)])"

text \<open>\<^verbatim>\<open>String.prototype.toUpperCase\<close> on the letters a to z.\<close>

definition toUpperCase :: "string \<Rightarrow> string" where
  "toUpperCase s =
     map (\<lambda>c. case map_of (zip ''abcdefghijklmnopqrstuvwxyz'' ''ABCDEFGHIJKLMNOPQRSTUVWXYZ'') c of
                None \<Rightarrow> c | Some u \<Rightarrow> u) s"

text \<open>\<^verbatim>\<open>s.indexOf(pat) >= 0\<close> and \<^verbatim>\<open>s.indexOf(pat) === 0\<close>.\<close>

definition startsWith :: "string \<Rightarrow> string \<Rightarrow> bool" where
  "startsWith pat s = (take (length pat) s = pat)"

fun includes_text :: "string \<Rightarrow> string \<Rightarrow> bool" where
  "includes_text pat [] = (pat = [])"
| "includes_text pat (c # cs) = (startsWith pat (c # cs) \<or> includes_text pat cs)"

text \<open>\<^verbatim>\<open>s.replace(pat, rep)\<close> with a text pattern: the first occurrence only.\<close>

fun replace_first :: "string \<Rightarrow> string \<Rightarrow> string \<Rightarrow> string" where
  "replace_first pat rep [] = (if pat = [] then rep else [])"
| "replace_first pat rep (c # cs) =
     (if startsWith pat (c # cs) then rep @ drop (length pat) (c # cs)
      else c # replace_first pat rep cs)"

text \<open>
  The replacement \<^verbatim>\<open>sqlish.replace(/\$(\w+)(\("(.*?)"\))?/ig, callback)\<close>. A match is a
  dollar sign, the longest run of word characters after it (at least one) and, when it
  follows, a parenthesised argument in double quotes: the shortest text without a line
  break that \<^verbatim>\<open>")\<close> ends. The callback gets the name and the argument
  (\<open>None\<close> when the group did not match) and its result replaces the match.
\<close>

definition isWordChar :: "char \<Rightarrow> bool" where
  "isWordChar c =
     (c \<in> set ''abcdefghijklmnopqrstuvwxyzABCDEFGHIJKLMNOPQRSTUVWXYZ0123456789_'')"

fun findClose :: "string \<Rightarrow> (string \<times> string) option" where
  "findClose [] = None"
| "findClose (c # cs) =
     (if c = CHR 0x22 \<and> take 1 cs = '')'' then Some ([], drop 1 cs)
      else if c = CHR 0x0A \<or> c = CHR 0x0D then None
      else (case findClose cs of None \<Rightarrow> None | Some (a, r) \<Rightarrow> Some (c # a, r)))"

definition matchArgument :: "string \<Rightarrow> (string \<times> string) option" where
  "matchArgument s = (if take 2 s = [CHR ''('', CHR 0x22] then findClose (drop 2 s) else None)"

function replaceTokens :: "(string \<Rightarrow> string option \<Rightarrow> error + string) \<Rightarrow> string \<Rightarrow> error + string" where
  "replaceTokens f [] = Inr []"
| "replaceTokens f (c # cs) =
     (if c = CHR ''$'' \<and> takeWhile isWordChar cs \<noteq> [] then
        (case matchArgument (dropWhile isWordChar cs) of
           Some (a, r) \<Rightarrow>
             (case f (takeWhile isWordChar cs) (Some a) of
                Inl e \<Rightarrow> Inl e
              | Inr x \<Rightarrow> (case replaceTokens f r of Inl e \<Rightarrow> Inl e | Inr y \<Rightarrow> Inr (x @ y)))
         | None \<Rightarrow>
             (case f (takeWhile isWordChar cs) None of
                Inl e \<Rightarrow> Inl e
              | Inr x \<Rightarrow>
                  (case replaceTokens f (dropWhile isWordChar cs) of
                     Inl e \<Rightarrow> Inl e
                   | Inr y \<Rightarrow> Inr (x @ y))))
      else (case replaceTokens f cs of Inl e \<Rightarrow> Inl e | Inr y \<Rightarrow> Inr (c # y)))"
  by pat_completeness auto
termination
proof (relation "measure (\<lambda>(f, s). length s)")
  have close: "length r \<le> length s" if "findClose s = Some (a, r)" for s a r
    using that
  proof (induction s arbitrary: a)
    case Nil
    then show ?case by simp
  next
    case (Cons d ds)
    then show ?case by (auto split: if_splits option.splits)
  qed
  have arg: "length r \<le> length s" if "matchArgument s = Some (a, r)" for s a r
    using that close[of "drop 2 s" a r] by (auto simp: matchArgument_def split: if_splits)
  have dw: "length (dropWhile isWordChar cs) \<le> length cs" for cs
    by (rule length_dropWhile_le)
  {
    fix f :: "string \<Rightarrow> string option \<Rightarrow> error + string" and c :: char and cs a r :: string
    assume "matchArgument (dropWhile isWordChar cs) = Some (a, r)"
    from arg[OF this] dw[of cs] have "length r < length (c # cs)" by simp
  }
  note step = this
  show "wf (measure (\<lambda>(f :: string \<Rightarrow> string option \<Rightarrow> error + string, s :: string). length s))"
    by simp
  show "\<And>f c cs x2 x y xa.
       c = CHR ''$'' \<and> takeWhile isWordChar cs \<noteq> [] \<Longrightarrow>
       matchArgument (dropWhile isWordChar cs) = Some x2 \<Longrightarrow>
       (x, y) = x2 \<Longrightarrow>
       f (takeWhile isWordChar cs) (Some x) = Inr xa \<Longrightarrow>
       ((f, y), f, c # cs) \<in> measure (\<lambda>(f, s). length s)"
    using step by auto
  show "\<And>f c cs x2.
       c = CHR ''$'' \<and> takeWhile isWordChar cs \<noteq> [] \<Longrightarrow>
       matchArgument (dropWhile isWordChar cs) = None \<Longrightarrow>
       f (takeWhile isWordChar cs) None = Inr x2 \<Longrightarrow>
       ((f, dropWhile isWordChar cs), f, c # cs) \<in> measure (\<lambda>(f, s). length s)"
    using dw by (auto simp: less_Suc_eq_le)
  show "\<And>f c cs.
       \<not> (c = CHR ''$'' \<and> takeWhile isWordChar cs \<noteq> []) \<Longrightarrow>
       ((f, cs), f, c # cs) \<in> measure (\<lambda>(f, s). length s)"
    by simp
qed

section \<open>The SET clause\<close>

text \<open>
  The lookup \<^verbatim>\<open>transformers[key]\<close> in the object literal of \<^verbatim>\<open>addSetClause\<close>:
  its two own members, or a member inherited from \<^verbatim>\<open>Object.prototype\<close>, or
  \<^verbatim>\<open>undefined\<close>.
\<close>

datatype setTransformer = Inc | Decr | InheritedMember string

definition transformers :: "string \<Rightarrow> setTransformer option" where
  "transformers key =
     (if key = ''$inc'' then Some Inc
      else if key = ''$decr'' then Some Decr
      else if key \<in> set object_prototype_names then Some (InheritedMember key)
      else None)"

text \<open>
  The call \<^verbatim>\<open>transformer(query, columnName, value)\<close>. The file is in strict mode, so
  an inherited member is called with \<^verbatim>\<open>this\<close> undefined: \<^verbatim>\<open>Object\<close> (as
  \<^verbatim>\<open>constructor\<close>) and \<^verbatim>\<open>toString\<close> return without touching the query, the
  other functions throw on \<^verbatim>\<open>this\<close>, and \<^verbatim>\<open>__proto__\<close> is not a function.
\<close>

definition callTransformer :: "setTransformer \<Rightarrow> query \<Rightarrow> string \<Rightarrow> jsval \<Rightarrow> error + query" where
  "callTransformer tr q column v =
     (case tr of
        Inc \<Rightarrow> Inr (q\<lparr>q_counters := q_counters q @ [Increment column v]\<rparr>)
      | Decr \<Rightarrow> Inr (q\<lparr>q_counters := q_counters q @ [Decrement column v]\<rparr>)
      | InheritedMember k \<Rightarrow>
          (if k = ''constructor'' \<or> k = ''toString'' then Inr q else Inl (TypeError ''transformer'')))"

text \<open>\<^verbatim>\<open>updateMap[columnName] = v\<close>\<close>

fun assignColumn :: "(string \<times> setValue) list \<Rightarrow> string \<Rightarrow> setValue \<Rightarrow> (string \<times> setValue) list" where
  "assignColumn [] k v = [(k, v)]"
| "assignColumn ((k', v') # kvs) k v =
     (if k' = k then (k, v) # kvs else (k', v') # assignColumn kvs k v)"

text \<open>The own enumerable members of a value that is an object, in \<^verbatim>\<open>Object.keys\<close> order.\<close>

definition indexed :: "jsval list \<Rightarrow> (string \<times> jsval) list" where
  "indexed xs = zip (map string_of_nat [0..<length xs]) xs"

definition applyTransformer :: "string \<Rightarrow> string \<times> jsval \<Rightarrow> query \<Rightarrow> error + query" where
  "applyTransformer column kv q =
     (case transformers (fst kv) of
        None \<Rightarrow> Inl (Error (''Invalid transformer `'' @ fst kv @ ''`.''))
      | Some transformer \<Rightarrow> callTransformer transformer q column (snd kv))"

definition setProperty ::
  "env \<Rightarrow> table \<Rightarrow> string \<times> setValue \<Rightarrow> query \<times> (string \<times> setValue) list \<Rightarrow>
   error + query \<times> (string \<times> setValue) list" where
  "setProperty E t entry st =
     (let propertyName = fst entry; setValue = snd entry; q = fst st; updateMap = snd st
      in case getProperty E t propertyName of
           None \<Rightarrow> Inl (Error (''Could not find property `'' @ propertyName @ ''` in `'' @ tname t @ ''`.''))
         | Some property \<Rightarrow>
             if isAllowed property then
               (case setValue of
                  SetValue (VQueryValue v) \<Rightarrow> Inr (q, assignColumn updateMap (columnName property) (SetValue v))
                | SetRaw r \<Rightarrow> Inr (q, assignColumn updateMap (columnName property) (SetRaw r))
                | SetValue (VObject kvs) \<Rightarrow>
                    (case forEach (applyTransformer (columnName property)) kvs q of
                       Inl e \<Rightarrow> Inl e | Inr q' \<Rightarrow> Inr (q', updateMap))
                | SetValue (VArray xs) \<Rightarrow>
                    (case forEach (applyTransformer (columnName property)) (indexed xs) q of
                       Inl e \<Rightarrow> Inl e | Inr q' \<Rightarrow> Inr (q', updateMap))
                | SetValue (VBuilder b) \<Rightarrow>
                    (case forEach (applyTransformer (columnName property)) (builderMembers E) q of
                       Inl e \<Rightarrow> Inl e | Inr q' \<Rightarrow> Inr (q', updateMap))
                | SetValue v \<Rightarrow> Inr (q, assignColumn updateMap (columnName property) (SetValue v)))
             else Inr (q, updateMap))"

definition addSetClause ::
  "env \<Rightarrow> table \<Rightarrow> query \<Rightarrow> (string \<times> setValue) list option \<Rightarrow> error + query" where
  "addSetClause E t query setMap =
     (case setMap of
        None \<Rightarrow> Inr query
      | Some kvs \<Rightarrow>
          (case forEach (setProperty E t) kvs (query, []) of
             Inl e \<Rightarrow> Inl e
           | Inr (q, updateMap) \<Rightarrow> Inr (q\<lparr>q_method := UpdateMethod, q_update := Some updateMap\<rparr>)))"

section \<open>The WHERE clause\<close>

text \<open>
  The lookup \<^verbatim>\<open>Table.WHERE_TRANSFORMER[key]\<close>: the array of an own member, or an
  inherited member with its \<^verbatim>\<open>length\<close> (the arity of a function; \<^verbatim>\<open>__proto__\<close> is
  an object and has none), or \<^verbatim>\<open>undefined\<close>.
\<close>

datatype whereTransformer = Operators "string list" | Inherited "nat option"

definition WHERE_TRANSFORMER :: "string \<Rightarrow> whereTransformer option" where
  "WHERE_TRANSFORMER key =
     (case map_of
        [(''$is'', [''='', ''IS'']), (''$gte'', [''>='']), (''$gt'', [''>'']), (''$lt'', [''<'']),
         (''$lte'', [''<='']), (''$not'', [''!='', ''IS NOT'']), (''$like'', [''LIKE'']),
         (''$ilike'', [''ILIKE'']), (''$regex'', [''~'']), (''$or'', []), (''$in'', [])] key of
        Some ops \<Rightarrow> Some (Operators ops)
      | None \<Rightarrow>
          (case map_of
             [(''constructor'', Some 1), (''toString'', Some 0), (''toLocaleString'', Some 0),
              (''valueOf'', Some 0), (''hasOwnProperty'', Some 1), (''isPrototypeOf'', Some 1),
              (''propertyIsEnumerable'', Some 1), (''__proto__'', None),
              (''__defineGetter__'', Some 2), (''__defineSetter__'', Some 2),
              (''__lookupGetter__'', Some 1), (''__lookupSetter__'', Some (1::nat))] key of
             Some n \<Rightarrow> Some (Inherited n)
           | None \<Rightarrow> None))"

text \<open>\<^verbatim>\<open>transformer.length <= 1\<close>, \<^verbatim>\<open>transformer[i]\<close>, and the latter inside a text.\<close>

definition lengthAtMost1 :: "whereTransformer \<Rightarrow> bool" where
  "lengthAtMost1 tr =
     (case tr of Operators ops \<Rightarrow> length ops \<le> 1 | Inherited (Some n) \<Rightarrow> n \<le> 1
      | Inherited None \<Rightarrow> False)"

definition operatorAt :: "whereTransformer \<Rightarrow> nat \<Rightarrow> string option" where
  "operatorAt tr i =
     (case tr of Operators ops \<Rightarrow> (if i < length ops then Some (ops ! i) else None)
      | Inherited n \<Rightarrow> None)"

definition textOf :: "string option \<Rightarrow> string" where
  "textOf s = (case s of None \<Rightarrow> ''undefined'' | Some x \<Rightarrow> x)"

text \<open>
  The callback of \<^verbatim>\<open>$or\<close> inside a value: \<^verbatim>\<open>ors.forEach\<close>, which throws when
  \<^verbatim>\<open>ors\<close> is no array, with \<^verbatim>\<open>where\<close> for the first alternative and \<^verbatim>\<open>orWhere\<close> for
  the others.
\<close>

definition orClauses :: "string \<Rightarrow> jsval \<Rightarrow> error + clause list" where
  "orClauses column ors =
     (case ors of
        VArray [] \<Rightarrow> Inr []
      | VArray (v # vs) \<Rightarrow> Inr (Where column v # map (OrWhere column) vs)
      | _ \<Rightarrow> Inl (TypeError ''ors.forEach''))"

definition applyOperator :: "string \<Rightarrow> string \<times> jsval \<Rightarrow> query \<Rightarrow> error + query" where
  "applyOperator column kv q =
     (let key = fst kv; v = snd kv
      in case WHERE_TRANSFORMER key of
           None \<Rightarrow> Inl (Error (''Invalid transformer `'' @ key @ ''`.''))
         | Some transformer \<Rightarrow>
             if key = ''$or'' then Inr (addWhere (WhereWrapped (orClauses column v)) q)
             else if key = ''$in'' then Inr (addWhere (WhereIn column v) q)
             else if v = VNull then
               (if lengthAtMost1 transformer
                then Inl (Error (''Cannot use transformer `'' @ key @ ''` with NULL value.''))
                else Inr (addWhere
                       (WhereRaw (column @ '' '' @ textOf (operatorAt transformer 1) @ '' null'') []) q))
             else
               (case v of
                  VArray xs \<Rightarrow>
                    if key = ''$not'' then Inr (addWhere (WhereNotIn column (map toQueryValue xs)) q)
                    else Inr (addWhere (WhereOp column (operatorAt transformer 0) v) q)
                | _ \<Rightarrow> Inr (addWhere (WhereOp column (operatorAt transformer 0) v) q)))"

definition addValueClause :: "query \<Rightarrow> string \<Rightarrow> jsval \<Rightarrow> property option \<Rightarrow> error + query" where
  "addValueClause query column v property =
     (case v of
        VArray xs \<Rightarrow> Inr (addWhere (WhereIn column (VArray (map toQueryValue xs))) query)
      | _ \<Rightarrow>
          (case (case property of None \<Rightarrow> None
                 | Some p \<Rightarrow> if truthyName (rawWhere p) then rawWhere p else None) of
             Some raw \<Rightarrow>
               if includes_text ''$1'' raw
               then Inr (addWhere (WhereRaw (replace_first ''$1'' ''?'' raw) [v]) query)
               else Inr (addWhere (WhereRaw raw []) query)
           | None \<Rightarrow>
               (case v of
                  VNull \<Rightarrow> Inr (addWhere (WhereNull column) query)
                | VQueryValue x \<Rightarrow> Inr (addWhere (Where column x) query)
                | VBuilder b \<Rightarrow> Inr (addWhere (Where column v) query)
                | VObject kvs \<Rightarrow> forEach (applyOperator column) kvs query
                | _ \<Rightarrow> Inr (addWhere (Where column v) query))))"

text \<open>\<^verbatim>\<open>property.model.getTable().name\<close>\<close>

definition modelTableName :: "env \<Rightarrow> string \<Rightarrow> string option" where
  "modelTableName E n = map_option tableName (findModel E n)"

text \<open>
  A dotted key path: \<^verbatim>\<open>query.whereExists(function ...)\<close>. The callback builds the
  subquery against the table of the property's model, correlated on the association
  \<open>firstProperty\<close>; \<open>existsSubquery\<close> is what it does when it is run.
\<close>

definition existsSubquery ::
  "env \<Rightarrow> table \<Rightarrow> property \<Rightarrow> property \<Rightarrow> jsval \<Rightarrow> error + string \<times> clause list" where
  "existsSubquery E t property firstProperty whereValue =
     (case modelTableName E (model property) of
        None \<Rightarrow> Inl (TypeError ''property.model.getTable()'')
      | Some target \<Rightarrow>
          (case addValueClause (knex_from target) (columnName property) whereValue (Some firstProperty) of
             Inl e \<Rightarrow> Inl e
           | Inr subquery \<Rightarrow>
               if isManyToMany firstProperty then
                 (case (case through firstProperty of None \<Rightarrow> None | Some n \<Rightarrow> findModel E n) of
                    None \<Rightarrow> Inl (TypeError ''firstProperty.options.through'')
                  | Some thr \<Rightarrow>
                      (case getLinkedProperty E thr (throughPropertyName firstProperty) of
                         None \<Rightarrow> Inl (TypeError ''otherProperty.columnName'')
                       | Some otherProperty \<Rightarrow>
                           Inr (target, q_wheres (addWhere
                                  (WhereRaw (columnName otherProperty @ '' = '' @ quote (tname t) @ ''.'' @
                                     quote ''id'') []) subquery))))
               else
                 (case relationshipVia firstProperty of
                    None \<Rightarrow> Inl (TypeError ''firstProperty.options.relationshipVia'')
                  | Some via \<Rightarrow>
                      if ref_allowed via then
                        Inr (target, q_wheres (addWhere
                               (WhereRaw (ref_columnName via @ '' = '' @ getName t @ ''.id'') []) subquery))
                      else
                        Inr (target, q_wheres (addWhere
                               (WhereRaw (tname t @ ''.'' @ columnName firstProperty @ '' = '' @ target @
                                  ''.id'') []) subquery)))))"

definition whereExistsClause ::
  "env \<Rightarrow> table \<Rightarrow> property \<Rightarrow> property \<Rightarrow> jsval \<Rightarrow> query \<Rightarrow> query" where
  "whereExistsClause E t property firstProperty whereValue q =
     addWhere (WhereExists (existsSubquery E t property firstProperty whereValue)) q"

text \<open>A plain key: the column the value is compared with.\<close>

definition whereColumnName :: "env \<Rightarrow> property \<Rightarrow> error + string" where
  "whereColumnName E property =
     (if isManyToMany property then
        (case (case through property of None \<Rightarrow> None | Some n \<Rightarrow> findModel E n) of
           None \<Rightarrow> Inl (TypeError ''property.options.through'')
         | Some thr \<Rightarrow>
             (case relationshipVia property of
                None \<Rightarrow> Inl (TypeError ''property.options.relationshipVia'')
              | Some via \<Rightarrow>
                  (case findAssociationsTo E thr (ref_model via) of
                     [] \<Rightarrow> Inl (TypeError ''findAssociationsTo(...)[0].columnName'')
                   | a # _ \<Rightarrow> Inr (tname (getTable thr) @ ''.'' @ columnName a))))
      else if truthyName (hasOne property) then
        (case relationshipVia property of
           None \<Rightarrow> Inl (TypeError ''property.options.relationshipVia'')
         | Some via \<Rightarrow>
             (case modelTableName E (ref_model via) of
                None \<Rightarrow> Inl (TypeError ''relationshipVia.model.getTable()'')
              | Some n \<Rightarrow> Inr ((n @ ''_'' @ name property) @ ''.id'')))
      else
        (case modelTableName E (model property) of
           None \<Rightarrow> Inl (TypeError ''property.model.getTable()'')
         | Some n \<Rightarrow> Inr (n @ ''.'' @ columnName property)))"

text \<open>
  The body the source writes twice, for a key of the where map and for a key of a
  branch of \<^verbatim>\<open>$or\<close>; the two differ in the error they throw for an unknown property,
  which is the argument \<open>notFound\<close>.
\<close>

definition whereProperty ::
  "env \<Rightarrow> table \<Rightarrow> error \<Rightarrow> string \<times> jsval \<Rightarrow> query \<Rightarrow> error + query" where
  "whereProperty E t notFound entry q =
     (case getProperty E t (fst entry) of
        None \<Rightarrow> Inl notFound
      | Some property \<Rightarrow>
          (case getFirstProperty E t (fst entry) of
             Some firstProperty \<Rightarrow> Inr (whereExistsClause E t property firstProperty (snd entry) q)
           | None \<Rightarrow>
               (case whereColumnName E property of
                  Inl e \<Rightarrow> Inl e
                | Inr column \<Rightarrow> addValueClause q column (snd entry) (Some property))))"

definition objectKeys :: "env \<Rightarrow> jsval \<Rightarrow> error + (string \<times> jsval) list" where
  "objectKeys E v =
     (case v of
        VObject kvs \<Rightarrow> Inr kvs
      | VArray xs \<Rightarrow> Inr (indexed xs)
      | VBuilder b \<Rightarrow> Inr (builderMembers E)
      | VDate d \<Rightarrow> Inr []
      | VNull \<Rightarrow> Inl (TypeError ''Object.keys'')
      | VUndefined \<Rightarrow> Inl (TypeError ''Object.keys'')
      | _ \<Rightarrow> Inl (Unmodelled ''Object.keys''))"

text \<open>
  One branch of \<^verbatim>\<open>$or\<close>: what the callback handed to \<^verbatim>\<open>where\<close> or \<^verbatim>\<open>orWhere\<close> for
  the branch does when it is run, on a builder of its own. The error for an unknown
  property is built from \<^verbatim>\<open>propertyName\<close>, the key of the outer loop.
\<close>

definition orBranch :: "env \<Rightarrow> table \<Rightarrow> string \<Rightarrow> jsval \<Rightarrow> error + clause list" where
  "orBranch E t propertyName branch =
     (case objectKeys E branch of
        Inl e \<Rightarrow> Inl e
      | Inr kvs \<Rightarrow>
          (case forEach (whereProperty E t
                  (Error (''Cannot find property with name `'' @ propertyName @ ''` on $or on table `'' @
                     tname t @ ''`. Did you specify an invalid property name in where clause?'')))
                  kvs (knex_from []) of
             Inl e \<Rightarrow> Inl e
           | Inr b \<Rightarrow> Inr (q_wheres b)))"

text \<open>
  The callback handed to \<^verbatim>\<open>query.where\<close> for the key \<^verbatim>\<open>$or\<close>: \<^verbatim>\<open>ors.forEach\<close>, which
  hands one callback for every branch to \<^verbatim>\<open>where\<close> (the first) or \<^verbatim>\<open>orWhere\<close>.
\<close>

fun orBranches :: "env \<Rightarrow> table \<Rightarrow> string \<Rightarrow> bool \<Rightarrow> jsval list \<Rightarrow> clause list" where
  "orBranches E t propertyName isFirst [] = []"
| "orBranches E t propertyName isFirst (branch # rest) =
     (if isFirst then WhereWrapped (orBranch E t propertyName branch)
      else OrWhereWrapped (orBranch E t propertyName branch)) #
     orBranches E t propertyName False rest"

definition orCallback :: "env \<Rightarrow> table \<Rightarrow> string \<Rightarrow> jsval \<Rightarrow> error + clause list" where
  "orCallback E t propertyName ors =
     (case ors of
        VArray branches \<Rightarrow> Inr (orBranches E t propertyName True branches)
      | _ \<Rightarrow> Inl (TypeError ''ors.forEach''))"

definition whereEntry :: "env \<Rightarrow> table \<Rightarrow> string \<times> jsval \<Rightarrow> query \<Rightarrow> error + query" where
  "whereEntry E t entry q =
     (if fst entry = ''$or'' then
        Inr (addWhere (WhereWrapped (orCallback E t (fst entry) (snd entry))) q)
      else whereProperty E t
             (Error (''Cannot find property with name `'' @ fst entry @ ''` on table `'' @ tname t @
                ''`. Did you specify an invalid property name in where clause?'')) entry q)"

definition addWhereClause :: "env \<Rightarrow> table \<Rightarrow> query \<Rightarrow> (string \<times> jsval) list \<Rightarrow> error + query" where
  "addWhereClause E t query whereMap = forEach (whereEntry E t) whereMap query"

section \<open>Sort, limit and offset\<close>

text \<open>
  The sort argument: a string (which \<^verbatim>\<open>addSortClause\<close> refuses) or a map from
  property names to a direction, a string or a number. A limit or an offset is a number
  or absent (\<^verbatim>\<open>null\<close>, \<^verbatim>\<open>undefined\<close>).
\<close>

datatype sortValue = SortText string | SortNumber int

datatype sortArg = SortString string | SortMap "(string \<times> sortValue) list"

definition truthySort :: "sortArg option \<Rightarrow> bool" where
  "truthySort s = (case s of None \<Rightarrow> False | Some (SortString x) \<Rightarrow> x \<noteq> [] | Some (SortMap m) \<Rightarrow> True)"

definition truthyNumber :: "int option \<Rightarrow> bool" where
  "truthyNumber n = (case n of None \<Rightarrow> False | Some k \<Rightarrow> k \<noteq> 0)"

definition positive :: "int option \<Rightarrow> bool" where
  "positive n = (case n of None \<Rightarrow> False | Some k \<Rightarrow> 0 < k)"

definition sortEntry :: "env \<Rightarrow> table \<Rightarrow> string \<times> sortValue \<Rightarrow> query \<Rightarrow> error + query" where
  "sortEntry E t entry q =
     (case getProperty E t (fst entry) of
        None \<Rightarrow> Inl (Error (''Warning: cannot find property `'' @ fst entry @ ''` in orderBy.''))
      | Some property \<Rightarrow>
          (case (case snd entry of
                   SortText s \<Rightarrow>
                     if toUpperCase s = ''ASC'' \<or> toUpperCase s = ''DESC'' then Inr (toUpperCase s)
                     else Inl (Error (''Value `'' @ toUpperCase s @ ''` is not allowed in orderBy.''))
                 | SortNumber n \<Rightarrow> Inr (if n < 0 then ''DESC'' else ''ASC'')) of
             Inl e \<Rightarrow> Inl e
           | Inr sortValue \<Rightarrow>
               if isVirtual property then Inr (orderBy (columnName property) sortValue q)
               else Inr (orderBy (tname t @ ''.'' @ columnName property) sortValue q)))"

definition addSortClause :: "env \<Rightarrow> table \<Rightarrow> query \<Rightarrow> sortArg option \<Rightarrow> error + query" where
  "addSortClause E t query sortArg =
     (if truthySort sortArg then
        (case sortArg of
           Some (SortMap m) \<Rightarrow> forEach (sortEntry E t) m query
         | _ \<Rightarrow> Inl (Error (''Ordering by a string is not allowed anymore. '' @
                   ''Use PropertyTypes#Aggregate to order by something more advanced.'')))
      else Inr query)"

definition addLimitClause :: "query \<Rightarrow> int option \<Rightarrow> query" where
  "addLimitClause query limit = (if positive limit then query\<lparr>q_limit := limit\<rparr> else query)"

definition addOffsetClause :: "query \<Rightarrow> int option \<Rightarrow> query" where
  "addOffsetClause query skip = (if positive skip then query\<lparr>q_offset := skip\<rparr> else query)"

section \<open>Computed columns\<close>

definition createReadOnlyStatement :: "env \<Rightarrow> property \<Rightarrow> string \<Rightarrow> error + string" where
  "createReadOnlyStatement E property targetPropertyName =
     (case findModel E (model property) of
        None \<Rightarrow> Inl (TypeError ''property.model'')
      | Some owner \<Rightarrow>
          (case model_getProperty E owner targetPropertyName of
             None \<Rightarrow> Inl (TypeError ''targetProperty.isAssociation'')
           | Some targetProperty \<Rightarrow>
               if \<not> isAssociation targetProperty then Inl (Error ''Count only works on associations.'')
               else
                 (case through targetProperty of
                    Some thrName \<Rightarrow>
                      (case findModel E thrName of
                         None \<Rightarrow> Inl (TypeError ''targetProperty.options.through.getTable()'')
                       | Some thr \<Rightarrow>
                           (case getLinkedProperty E thr (throughPropertyName targetProperty) of
                              None \<Rightarrow> Inl (TypeError ''associatedTable.getProperty(...).columnName'')
                            | Some p \<Rightarrow>
                                Inr (''(SELECT COUNT(*) FROM '' @ getName (getTable thr) @ '' WHERE '' @
                                     getName (getTable owner) @ ''.id = '' @ getName (getTable thr) @
                                     ''.'' @ columnName p @ '')'')))
                  | None \<Rightarrow>
                      (case getAssociatedModel E targetProperty of
                         None \<Rightarrow> Inl (TypeError ''associatedModel.getTable()'')
                       | Some am \<Rightarrow>
                           (case relationshipVia targetProperty of
                              None \<Rightarrow> Inl (TypeError ''associatedProperty.columnName'')
                            | Some via \<Rightarrow>
                                Inr (''(SELECT COUNT(*) FROM '' @ getName (getTable am) @ '' WHERE '' @
                                     getName (getTable owner) @ ''.id = '' @ getName (getTable am) @
                                     ''.'' @ ref_columnName via @ '')''))))))"

text \<open>
  The value of \<^verbatim>\<open>property.options.sqlish\<close> after the statement
  \<^verbatim>\<open>if(counting && !sqlish) sqlish = createReadOnlyStatement(property, counting)\<close>. The
  source stores the text on the property; the text depends on nothing the builder
  changes, so a later call computes the same text and the model computes it again.
\<close>

definition memoSqlish :: "env \<Rightarrow> property \<Rightarrow> error + string option" where
  "memoSqlish E property =
     (if truthyName (counting property) \<and> \<not> truthyName (sqlish property) then
        (case createReadOnlyStatement E property (case counting property of Some c \<Rightarrow> c | None \<Rightarrow> []) of
           Inl e \<Rightarrow> Inl e
         | Inr s \<Rightarrow> Inr (Some s))
      else Inr (sqlish property))"

text \<open>
  The expansion of a sqlish text: a token with a non-empty argument becomes the
  counting subquery, any other token the text \<open>bare\<close> makes of its name.
\<close>

definition expandSqlish :: "env \<Rightarrow> property \<Rightarrow> (string \<Rightarrow> string) \<Rightarrow> string \<Rightarrow> error + string" where
  "expandSqlish E property bare text =
     replaceTokens
       (\<lambda>readOnlyPropertyName targetPropertyName.
          if truthyName targetPropertyName
          then createReadOnlyStatement E property (case targetPropertyName of Some a \<Rightarrow> a | None \<Rightarrow> [])
          else Inr (bare readOnlyPropertyName))
       text"

text \<open>
  The computed column of a property that is not stored, under the alias \<open>as\<close>:
  nothing when the property has no sqlish text.
\<close>

definition computedColumn ::
  "env \<Rightarrow> property \<Rightarrow> (string \<Rightarrow> string) \<Rightarrow> string \<Rightarrow> error + column option" where
  "computedColumn E property bare as =
     (case memoSqlish E property of
        Inl e \<Rightarrow> Inl e
      | Inr s \<Rightarrow>
          if truthyName s then
            (case expandSqlish E property bare (case s of Some x \<Rightarrow> x | None \<Rightarrow> []) of
               Inl e \<Rightarrow> Inl e
             | Inr sql \<Rightarrow> Inr (Some (RawColumn ''('' sql ('') as '' @ as))))
          else Inr None)"

definition addComputedColumn ::
  "env \<Rightarrow> property \<Rightarrow> (string \<Rightarrow> string) \<Rightarrow> string \<Rightarrow> query \<Rightarrow> error + query" where
  "addComputedColumn E property bare as q =
     (case computedColumn E property bare as of
        Inl e \<Rightarrow> Inl e
      | Inr None \<Rightarrow> Inr q
      | Inr (Some c) \<Rightarrow> Inr (addColumnTo c q))"

section \<open>RETURNING, DELETE and UPDATE\<close>

definition returningProperty :: "env \<Rightarrow> property \<Rightarrow> column list \<Rightarrow> error + column list" where
  "returningProperty E property readOnlyProperties =
     (case memoSqlish E property of
        Inl e \<Rightarrow> Inl e
      | Inr s \<Rightarrow>
          if truthyName s \<and> \<not> isAggregate property then
            (case expandSqlish E property (underscore E) (case s of Some x \<Rightarrow> x | None \<Rightarrow> []) of
               Inl e \<Rightarrow> Inl e
             | Inr readOnly \<Rightarrow>
                 Inr (readOnlyProperties @ [RawColumn ''('' readOnly ('') as '' @ columnName property)]))
          else Inr readOnlyProperties)"

definition addReturningClause :: "env \<Rightarrow> table \<Rightarrow> query \<Rightarrow> error + query" where
  "addReturningClause E t query =
     (case forEach (returningProperty E) (modelProperties (tmodel t)) [Column ''*''] of
        Inl e \<Rightarrow> Inl e
      | Inr readOnlyProperties \<Rightarrow> Inr (query\<lparr>q_returning := Some readOnlyProperties\<rparr>))"

text \<open>\<^verbatim>\<open>addWhereClause(query, whereMap)\<close> with a where map that may be \<^verbatim>\<open>null\<close>.\<close>

definition addWhereClauseTo ::
  "env \<Rightarrow> table \<Rightarrow> query \<Rightarrow> (string \<times> jsval) list option \<Rightarrow> error + query" where
  "addWhereClauseTo E t query whereMap =
     (case whereMap of
        None \<Rightarrow> Inl (TypeError ''Object.keys(whereMap)'')
      | Some m \<Rightarrow> addWhereClause E t query m)"

text \<open>\<^verbatim>\<open>(limit || skip || sort) && this.getProperty('id')\<close>\<close>

definition paginated :: "env \<Rightarrow> table \<Rightarrow> int option \<Rightarrow> int option \<Rightarrow> sortArg option \<Rightarrow> bool" where
  "paginated E t limit skip sortArg =
     ((truthyNumber limit \<or> truthyNumber skip \<or> truthySort sortArg) \<and> getProperty E t ''id'' \<noteq> None)"


definition createUpdateStatement ::
  "env \<Rightarrow> table \<Rightarrow> (string \<times> jsval) list option \<Rightarrow> (string \<times> setValue) list option \<Rightarrow>
   int option \<Rightarrow> int option \<Rightarrow> sortArg option \<Rightarrow> error + statement" where
  "createUpdateStatement E t whereMap setMap limit skip sortArg =
     (case addSetClause E t (knex_from (tname t)) setMap of
        Inl e \<Rightarrow> Inl e
      | Inr updateQuery \<Rightarrow>
          (case addReturningClause E t updateQuery of
             Inl e \<Rightarrow> Inl e
           | Inr updateQuery \<Rightarrow>
               if paginated E t limit skip sortArg then
                 (case addSortClause E t (knex_from (tname t)) sortArg of
                    Inl e \<Rightarrow> Inl e
                  | Inr withQuery \<Rightarrow>
                      (case addWhereClauseTo E t (addOffsetClause (addLimitClause withQuery limit) skip)
                              whereMap of
                         Inl e \<Rightarrow> Inl e
                       | Inr withQuery \<Rightarrow>
                           Inr (With ''t'' withQuery
                                  (addWhere
                                     (WhereRaw (quote ''id'' @ '' in (select '' @ quote ''id'' @ '' from '' @
                                        quote ''t'' @ '')'') [])
                                     updateQuery))))
               else
                 (case addWhereClauseTo E t updateQuery whereMap of
                    Inl e \<Rightarrow> Inl e
                  | Inr updateQuery \<Rightarrow> Inr (Plain updateQuery))))"

section \<open>SELECT\<close>

text \<open>
  The other arguments of \<^verbatim>\<open>createSelectStatement\<close>: the group argument is a string,
  an array of property names or some other truthy value; the select list and the list
  of associations to fetch are arrays or absent; the depth is a number or absent.
\<close>

datatype groupArg = GroupString string | GroupArray "string list" | GroupOther

definition truthyGroup :: "groupArg option \<Rightarrow> bool" where
  "truthyGroup g = (case g of None \<Rightarrow> False | Some (GroupString s) \<Rightarrow> s \<noteq> [] | Some _ \<Rightarrow> True)"

definition selectsProperty ::
  "property \<Rightarrow> string list option \<Rightarrow> groupArg option \<Rightarrow> bool" where
  "selectsProperty property select groupArg =
     (\<not> isHidden property \<and>
      ((select = None \<and> \<not> isAggregate property) \<or>
       (name property = ''id'' \<and> \<not> truthyGroup groupArg) \<or>
       (case select of None \<Rightarrow> False | Some names \<Rightarrow> name property \<in> set names)))"

definition selectColumn ::
  "env \<Rightarrow> table \<Rightarrow> string list option \<Rightarrow> groupArg option \<Rightarrow> property \<Rightarrow> query \<Rightarrow> error + query" where
  "selectColumn E t select groupArg property selectQuery =
     (if selectsProperty property select groupArg then
        (if isAllowed property
         then Inr (addColumnTo (Column (tname t @ ''.'' @ columnName property)) selectQuery)
         else addComputedColumn E property (\<lambda>n. tname t @ ''.'' @ underscore E n)
                (quote (columnName property)) selectQuery)
      else Inr selectQuery)"

text \<open>The columns the inner query gets for the properties it is sorted by.\<close>

definition sortColumn :: "env \<Rightarrow> table \<Rightarrow> string \<times> sortValue \<Rightarrow> query \<Rightarrow> error + query" where
  "sortColumn E t entry withQuery =
     (case findProperty (tmodel t) (fst entry) of
        None \<Rightarrow> Inl (TypeError ''property.options'')
      | Some property \<Rightarrow>
          addComputedColumn E property (\<lambda>n. tname t @ ''.'' @ underscore E n)
            (quote (columnName property)) withQuery)"

definition sortColumns :: "env \<Rightarrow> table \<Rightarrow> sortArg option \<Rightarrow> query \<Rightarrow> error + query" where
  "sortColumns E t sortArg withQuery =
     (if truthySort sortArg then
        (case sortArg of
           Some (SortMap m) \<Rightarrow> forEach (sortColumn E t) m withQuery
         | _ \<Rightarrow> Inl (TypeError ''Object.keys(sort)''))
      else Inr withQuery)"

text \<open>The columns selected for a joined association.\<close>

definition columnAlias :: "property list \<Rightarrow> property \<Rightarrow> string" where
  "columnAlias as property =
     concat (map (\<lambda>a. name a @ columnNameIndicator property) as) @ columnName property"

definition associationSelect :: "property list \<Rightarrow> string list option \<Rightarrow> bool \<times> string list" where
  "associationSelect as select =
     (let startSelect = concat (map (\<lambda>a. name a @ ''.'') as);
          matching = (case select of
                        None \<Rightarrow> []
                      | Some ss \<Rightarrow> map (drop (length startSelect)) (filter (startsWith startSelect) ss))
      in (''*'' \<in> set matching,
          filter (\<lambda>n. n \<noteq> ''*'') matching @
            (case autoFetchProperties (last as) of None \<Rightarrow> [] | Some ps \<Rightarrow> ps)))"

definition associationColumn ::
  "env \<Rightarrow> table \<Rightarrow> property list \<Rightarrow> string list option \<Rightarrow> property \<Rightarrow> query \<Rightarrow> error + query" where
  "associationColumn E t as select property query =
     (let selectIsArray = (select \<noteq> None \<or> autoFetchProperties (last as) \<noteq> None);
          selectAllProperties = fst (associationSelect as select);
          selectProperties = snd (associationSelect as select)
      in if \<not> selectIsArray \<or> selectAllProperties \<or> name property = ''id'' \<or>
            name property \<in> set selectProperties
         then
           (if isAllowed property
            then Inr (addColumnTo (Column (selectAlias t as @ ''.'' @ columnName property @ '' as '' @
                        columnAlias as property)) query)
            else addComputedColumn E property (\<lambda>n. selectAlias t as @ ''.'' @ underscore E n)
                   (columnAlias as property) query)
         else Inr query)"

definition addSelectColumnsForAssociation ::
  "env \<Rightarrow> table \<Rightarrow> query \<Rightarrow> property list \<Rightarrow> string list option \<Rightarrow> error + query" where
  "addSelectColumnsForAssociation E t query as select =
     (if as = [] then Inl (TypeError ''referenceProperty.getAssociatedModel'')
      else
        (case getAssociatedModel E (last as) of
           None \<Rightarrow> Inl (TypeError ''model.getAllProperties'')
         | Some m \<Rightarrow> forEach (associationColumn E t as select) (modelProperties m) query))"

text \<open>
  \<^verbatim>\<open>addAssociation\<close> calls itself inside a \<^verbatim>\<open>forEach\<close> over the child
  associations; the recursion is bounded by the depth. The congruence rule tells the
  function package that the loop applies its body to the elements of the list only.
\<close>

lemma forEach_cong [fundef_cong]:
  "xs = ys \<Longrightarrow> s = s' \<Longrightarrow> (\<And>x r. x \<in> set ys \<Longrightarrow> f x r = g x r) \<Longrightarrow> forEach f xs s = forEach g ys s'"
proof (induction ys arbitrary: xs s s')
  case Nil
  then show ?case by simp
next
  case (Cons y ys)
  then show ?case by (auto split: sum.splits)
qed

definition belowDepth :: "nat \<Rightarrow> int option \<Rightarrow> bool" where
  "belowDepth n autoFetchDepth = (case autoFetchDepth of None \<Rightarrow> False | Some d \<Rightarrow> int n < d)"

definition fetchesChild :: "property \<Rightarrow> property \<Rightarrow> bool" where
  "fetchesChild lastAssociation childAssociation =
     (autoFetch childAssociation \<and>
      (case autoFetchProperties lastAssociation of
         None \<Rightarrow> True
       | Some ps \<Rightarrow> name childAssociation \<in> set ps))"

function addAssociation ::
  "env \<Rightarrow> table \<Rightarrow> query \<Rightarrow> property list \<Rightarrow> string list option \<Rightarrow> int option \<Rightarrow> error + query" where
  "addAssociation E t query as select autoFetchDepth =
     (case addSelectColumnsForAssociation E t query as select of
        Inl e \<Rightarrow> Inl e
      | Inr q1 \<Rightarrow>
          (case addJoinStatement E t q1 as of
             Inl e \<Rightarrow> Inl e
           | Inr q2 \<Rightarrow>
               if belowDepth (length as) autoFetchDepth then
                 (case getAssociatedModel E (last as) of
                    None \<Rightarrow> Inr q2
                  | Some am \<Rightarrow>
                      forEach
                        (\<lambda>childAssociation q.
                           if fetchesChild (last as) childAssociation
                           then addAssociation E t q (as @ [childAssociation]) select autoFetchDepth
                           else Inr q)
                        (modelAssociations am) q2)
               else Inr q2))"
  by pat_completeness auto
termination
  by (relation "measure (\<lambda>(E, t, q, as, select, autoFetchDepth).
        case autoFetchDepth of None \<Rightarrow> 0 | Some d \<Rightarrow> nat (d - int (length as)))")
     (auto simp: belowDepth_def split: option.splits)

declare addAssociation.simps [simp del]

definition fetches :: "property \<Rightarrow> string list option \<Rightarrow> bool" where
  "fetches a fetchAssociations =
     (autoFetch a \<or> (case fetchAssociations of None \<Rightarrow> False | Some ns \<Rightarrow> name a \<in> set ns))"

definition selectAssociation ::
  "env \<Rightarrow> table \<Rightarrow> (string \<times> jsval) list option \<Rightarrow> string list option \<Rightarrow> string list option \<Rightarrow>
   int option \<Rightarrow> property \<Rightarrow> query option \<times> query \<Rightarrow> error + query option \<times> query" where
  "selectAssociation E t whereMap select fetchAssociations autoFetchDepth a st =
     (let withQuery = fst st; selectQuery = snd st
      in if fetches a fetchAssociations then
           (case addAssociation E t selectQuery [a] select autoFetchDepth of
              Inl e \<Rightarrow> Inl e
            | Inr q \<Rightarrow> Inr (withQuery, q))
         else
           (case whereMap of
              None \<Rightarrow> Inl (TypeError ''whereMap[association.name]'')
            | Some m \<Rightarrow>
                if truthy_member m (name a) then
                  (case withQuery of
                     Some w \<Rightarrow>
                       (case addJoinStatement E t w [a] of
                          Inl e \<Rightarrow> Inl e
                        | Inr w' \<Rightarrow> Inr (Some w', selectQuery))
                   | None \<Rightarrow>
                       (case addJoinStatement E t selectQuery [a] of
                          Inl e \<Rightarrow> Inl e
                        | Inr q \<Rightarrow> Inr (None, q)))
                else Inr (withQuery, selectQuery)))"

text \<open>
  \<^verbatim>\<open>associationNames.length > 0 && !sort && this.getProperty('id') && !group\<close>, the
  condition of the implicit sort.
\<close>

definition implicitSort :: "env \<Rightarrow> table \<Rightarrow> sortArg option \<Rightarrow> groupArg option \<Rightarrow> bool" where
  "implicitSort E t sortArg groupArg =
     (getAssociations t \<noteq> [] \<and> \<not> truthySort sortArg \<and> getProperty E t ''id'' \<noteq> None \<and>
      \<not> truthyGroup groupArg)"

definition groupEntry :: "env \<Rightarrow> table \<Rightarrow> string \<Rightarrow> string \<Rightarrow> query \<Rightarrow> error + query" where
  "groupEntry E t groupText propertyName q =
     (case getProperty E t propertyName of
        None \<Rightarrow> Inl (Error (''Invalid group by property `'' @ groupText @ ''`.''))
      | Some property \<Rightarrow> Inr (groupBy (tname t @ ''.'' @ columnName property) q))"

definition addGroupClause :: "env \<Rightarrow> table \<Rightarrow> query \<Rightarrow> groupArg option \<Rightarrow> error + query" where
  "addGroupClause E t selectQuery groupArg =
     (if truthyGroup groupArg then
        (case groupArg of
           Some (GroupString s) \<Rightarrow> forEach (groupEntry E t s) [s] selectQuery
         | Some (GroupArray ns) \<Rightarrow> forEach (groupEntry E t (join '','' ns)) ns selectQuery
         | _ \<Rightarrow> Inl (Error ''Invalid groupBy. Please provider either an array or a string.''))
      else Inr selectQuery)"

definition finishWithQuery ::
  "env \<Rightarrow> table \<Rightarrow> query \<Rightarrow> (string \<times> jsval) list option \<Rightarrow> int option \<Rightarrow> int option \<Rightarrow>
   sortArg option \<Rightarrow> groupArg option \<Rightarrow> error + query" where
  "finishWithQuery E t withQuery whereMap limit skip sortArg groupArg =
     (case addSortClause E t withQuery sortArg of
        Inl e \<Rightarrow> Inl e
      | Inr w1 \<Rightarrow>
          (case (case whereMap of None \<Rightarrow> Inr w1 | Some m \<Rightarrow> addWhereClause E t w1 m) of
             Inl e \<Rightarrow> Inl e
           | Inr w2 \<Rightarrow>
               (let w3 = addOffsetClause (addLimitClause w2 limit) skip
                in if implicitSort E t sortArg groupArg then Inr (orderBy ''id'' ''asc'' w3)
                   else Inr w3)))"

definition createSelectStatement ::
  "env \<Rightarrow> table \<Rightarrow> (string \<times> jsval) list option \<Rightarrow> int option \<Rightarrow> int option \<Rightarrow> sortArg option \<Rightarrow>
   groupArg option \<Rightarrow> string list option \<Rightarrow> string list option \<Rightarrow> int option \<Rightarrow> error + statement" where
  "createSelectStatement E t whereMap limit skip sortArg groupArg select fetchAssociations autoFetchDepth =
     (case (if truthyNumber limit \<or> truthyNumber skip
            then (case sortColumns E t sortArg
                         ((knex_from (tname t))\<lparr>q_columns := [Column (tname t @ ''.*'')]\<rparr>) of
                    Inl e \<Rightarrow> Inl e
                  | Inr w \<Rightarrow> Inr (Some w))
            else Inr None) of
        Inl e \<Rightarrow> Inl e
      | Inr withQuery \<Rightarrow>
          (case forEach (selectColumn E t select groupArg) (modelProperties (tmodel t))
                  (knex_from (tname t)) of
             Inl e \<Rightarrow> Inl e
           | Inr selectQuery \<Rightarrow>
               (case forEach (selectAssociation E t whereMap select fetchAssociations autoFetchDepth)
                       (modelAssociations (tmodel t)) (withQuery, selectQuery) of
                  Inl e \<Rightarrow> Inl e
                | Inr (withQuery, selectQuery) \<Rightarrow>
                    (let sortArg' = (if implicitSort E t sortArg groupArg
                                     then Some (SortMap [(''id'', SortText ''asc'')]) else sortArg)
                     in case addSortClause E t selectQuery sortArg' of
                          Inl e \<Rightarrow> Inl e
                        | Inr selectQuery \<Rightarrow>
                            (case addGroupClause E t selectQuery groupArg of
                               Inl e \<Rightarrow> Inl e
                             | Inr selectQuery \<Rightarrow>
                                 (case withQuery of
                                    Some w \<Rightarrow>
                                      (case finishWithQuery E t w whereMap limit skip sortArg' groupArg of
                                         Inl e \<Rightarrow> Inl e
                                       | Inr w' \<Rightarrow> Inr (With (tname t) w' selectQuery))
                                  | None \<Rightarrow>
                                      (case (case whereMap of
                                               None \<Rightarrow> Inr selectQuery
                                             | Some m \<Rightarrow> addWhereClause E t selectQuery m) of
                                         Inl e \<Rightarrow> Inl e
                                       | Inr q \<Rightarrow>
                                           Inr (Plain (addOffsetClause (addLimitClause q limit) skip)))))))))"

text \<open>
  \<^verbatim>\<open>createSearchStatement\<close> writes into the where map it is given. The result is the
  caller's map after the call (\<open>None\<close> when the caller passed none and a fresh object
  was used) and what \<^verbatim>\<open>createSelectStatement\<close> returns.
\<close>

definition searchCondition :: "table \<Rightarrow> string \<Rightarrow> jsval" where
  "searchCondition t searchText =
     VObject [(''$in'', VBuilder (Subquery [''id''] (tname t) ''_search @@ to_tsquery(?)'' [searchText]))]"

definition createSearchStatement ::
  "env \<Rightarrow> table \<Rightarrow> string \<Rightarrow> (string \<times> jsval) list option \<Rightarrow> int option \<Rightarrow> int option \<Rightarrow>
   sortArg option \<Rightarrow> groupArg option \<Rightarrow> string list option \<Rightarrow> string list option \<Rightarrow> int option \<Rightarrow>
   (string \<times> jsval) list option \<times> (error + statement)" where
  "createSearchStatement E t searchText whereArg limit skip sortArg groupArg select fetchAssociations
       autoFetchDepth =
     (let whereMap = assign (case whereArg of None \<Rightarrow> [] | Some w \<Rightarrow> w) ''id'' (searchCondition t searchText)
      in (case whereArg of None \<Rightarrow> None | Some w \<Rightarrow> Some whereMap,
          createSelectStatement E t (Some whereMap) limit skip sortArg groupArg select fetchAssociations
            autoFetchDepth))"

section \<open>Example models\<close>

text \<open>
  A small schema for the concrete instances below: users, their posts (one to many),
  and tags, linked to users through the model UserTag (many to many).
\<close>

definition aProperty :: "string \<Rightarrow> string \<Rightarrow> property" where
  "aProperty m n = \<lparr>name = n, columnName = n, columnNameIndicator = ''$'',
     clauses = [''INTEGER''], model = m, isAllowed = True, isAssociation = False,
     isManyToMany = False, associatedModel = None, required = False, hasOne = None,
     hasMany = None, belongsTo = False, autoFetch = False, autoFetchProperties = None,
     through = None, throughPropertyName = None, relationshipVia = None, counting = None,
     sqlish = None, isAggregate = False, isHidden = False, isVirtual = False,
     rawWhere = None\<rparr>"

definition anAssociation :: "string \<Rightarrow> string \<Rightarrow> string \<Rightarrow> property" where
  "anAssociation m n target = (aProperty m n)\<lparr>isAllowed := False, isAssociation := True,
     associatedModel := Some target\<rparr>"

definition userPosts :: property where
  "userPosts = (anAssociation ''User'' ''posts'' ''Post'')\<lparr>hasMany := Some ''author'',
     relationshipVia := Some \<lparr>ref_columnName = ''author_id'', ref_allowed = True,
       ref_model = ''Post'', ref_throughPropertyName = None\<rparr>\<rparr>"

definition userPostCount :: property where
  "userPostCount = (aProperty ''User'' ''postCount'')\<lparr>columnName := ''post_count'',
     isAllowed := False, counting := Some ''posts''\<rparr>"

definition postAuthor :: property where
  "postAuthor = (anAssociation ''Post'' ''author'' ''User'')\<lparr>columnName := ''author_id'',
     isAllowed := True, belongsTo := True\<rparr>"

definition userTags :: property where
  "userTags = (anAssociation ''User'' ''tags'' ''Tag'')\<lparr>isManyToMany := True,
     through := Some ''UserTag'', throughPropertyName := Some ''user'',
     relationshipVia := Some \<lparr>ref_columnName = ''users'', ref_allowed = False,
       ref_model = ''Tag'', ref_throughPropertyName = Some ''tag''\<rparr>\<rparr>"

definition userModel :: model where
  "userModel = \<lparr>modelName = ''User'', tableName = ''users'',
     modelProperties = [aProperty ''User'' ''id'', aProperty ''User'' ''name'',
       aProperty ''User'' ''score'', userPostCount, userPosts, userTags],
     modelAssociations = [userPosts, userTags]\<rparr>"

definition postModel :: model where
  "postModel = \<lparr>modelName = ''Post'', tableName = ''posts'',
     modelProperties = [aProperty ''Post'' ''id'', aProperty ''Post'' ''title'', postAuthor],
     modelAssociations = [postAuthor]\<rparr>"

definition tagModel :: model where
  "tagModel = \<lparr>modelName = ''Tag'', tableName = ''tags'',
     modelProperties = [aProperty ''Tag'' ''id'', aProperty ''Tag'' ''label''],
     modelAssociations = []\<rparr>"

definition userTagModel :: model where
  "userTagModel = \<lparr>modelName = ''UserTag'', tableName = ''user_tags'',
     modelProperties = [aProperty ''UserTag'' ''id'',
       (anAssociation ''UserTag'' ''user'' ''User'')\<lparr>columnName := ''user_id'',
          isAllowed := True, belongsTo := True\<rparr>,
       (anAssociation ''UserTag'' ''tag'' ''Tag'')\<lparr>columnName := ''tag_id'',
          isAllowed := True, belongsTo := True\<rparr>],
     modelAssociations = []\<rparr>"

definition exampleEnv :: env where
  "exampleEnv = \<lparr>models = [(''User'', userModel), (''Post'', postModel), (''Tag'', tagModel),
       (''UserTag'', userTagModel)],
     underscore = (\<lambda>s. s), camelize = (\<lambda>s. s),
     findAssociationsTo = (\<lambda>m n. filter (\<lambda>p. associatedModel p = Some n) (modelProperties m)),
     builderMembers = []\<rparr>"

definition users :: table where
  "users = getTable userModel"

section \<open>The alias rule in the words of the specification\<close>

text \<open>
  The underlying table name concatenated with each association name in traversal
  order, joined by underscore.
\<close>

definition spec_alias :: "string \<Rightarrow> string list \<Rightarrow> string" where
  "spec_alias root names = foldl (\<lambda>acc n. acc @ ''_'' @ n) root names"

definition exampleHeap :: heap where
  "exampleHeap = (\<lambda>r. (aProperty ''User'' ''score'')\<lparr>clauses := [''INTEGER'', ''NOT NULL'']\<rparr>)"

section \<open>The specification's words for computed columns\<close>



section \<open>Vocabulary for the SELECT statement\<close>

text \<open>
  \<open>extends q q'\<close>: the query \<open>q'\<close> is \<open>q\<close> with columns and joins appended.
  \<open>namedInWhere\<close>: the where map has a truthy entry under the association's name.
  \<open>effectiveSort\<close>: the value of the variable \<^verbatim>\<open>sort\<close> after the implicit sort was
  decided.
\<close>

definition extends :: "query \<Rightarrow> query \<Rightarrow> bool" where
  "extends q q' = (\<exists>cols js. q' = q\<lparr>q_columns := q_columns q @ cols, q_joins := q_joins q @ js\<rparr>)"

definition namedInWhere :: "(string \<times> jsval) list option \<Rightarrow> property \<Rightarrow> bool" where
  "namedInWhere whereMap a = (case whereMap of None \<Rightarrow> False | Some m \<Rightarrow> truthy_member m (name a))"

definition effectiveSort :: "env \<Rightarrow> table \<Rightarrow> sortArg option \<Rightarrow> groupArg option \<Rightarrow> sortArg option" where
  "effectiveSort E t sortArg groupArg =
     (if implicitSort E t sortArg groupArg then Some (SortMap [(''id'', SortText ''asc'')]) else sortArg)"

section \<open>Facts about strings and aliases\<close>

lemma foldl_alias_prefix:
  "foldl (\<lambda>acc n. acc @ sep @ n) (a @ b) ns = a @ foldl (\<lambda>acc n. acc @ sep @ n) b ns"
  by (induction ns arbitrary: b) simp_all

lemma join_Cons_foldl: "join sep (x # ns) = foldl (\<lambda>acc n. acc @ sep @ n) x ns"
proof (induction ns arbitrary: x)
  case Nil
  show ?case by simp
next
  case (Cons n ns)
  have "join sep (x # n # ns) = x @ sep @ join sep (n # ns)" by simp
  also have "\<dots> = x @ sep @ foldl (\<lambda>acc n. acc @ sep @ n) n ns" using Cons.IH by simp
  also have "\<dots> = foldl (\<lambda>acc n. acc @ sep @ n) ((x @ sep) @ n) ns"
    by (simp only: foldl_alias_prefix append_assoc)
  finally show ?case by simp
qed

lemma takeWhile_sep: "c \<notin> set x \<Longrightarrow> takeWhile (\<lambda>d. d \<noteq> c) (x @ c # r) = x"
  by (induction x) auto

lemma sep_split_unique:
  assumes "c \<notin> set x" "c \<notin> set y" "x @ c # r = y @ c # r'"
  shows "x = y \<and> r = r'"
proof -
  have "takeWhile (\<lambda>d. d \<noteq> c) (x @ c # r) = x" using assms(1) by (rule takeWhile_sep)
  moreover have "takeWhile (\<lambda>d. d \<noteq> c) (y @ c # r') = y" using assms(2) by (rule takeWhile_sep)
  ultimately have "x = y" using assms(3) by simp
  then show ?thesis using assms(3) by simp
qed

lemma join_inj:
  "xs \<noteq> [] \<Longrightarrow> ys \<noteq> [] \<Longrightarrow> \<forall>x\<in>set xs. c \<notin> set x \<Longrightarrow> \<forall>y\<in>set ys. c \<notin> set y \<Longrightarrow>
   join [c] xs = join [c] ys \<Longrightarrow> xs = ys"
proof (induction xs arbitrary: ys)
  case Nil
  then show ?case by simp
next
  case (Cons x xs')
  from Cons.prems(2) obtain y ys' where ys: "ys = y # ys'" by (cases ys) auto
  have cx: "c \<notin> set x" and cy: "c \<notin> set y" using Cons.prems ys by auto
  show ?case
  proof (cases xs')
    case Nil
    show ?thesis
    proof (cases ys')
      case Nil
      with \<open>xs' = []\<close> ys Cons.prems(5) show ?thesis by simp
    next
      case (Cons v ws)
      with \<open>xs' = []\<close> ys Cons.prems(5) have "x = y @ c # join [c] (v # ws)" by simp
      then have "c \<in> set x" by simp
      with cx show ?thesis by simp
    qed
  next
    case (Cons u us)
    note xs' = this
    show ?thesis
    proof (cases ys')
      case Nil
      with xs' ys Cons.prems(5) have "y = x @ c # join [c] (u # us)" by simp
      then have "c \<in> set y" by simp
      with cy show ?thesis by simp
    next
      case (Cons v ws)
      with xs' ys Cons.prems(5) have eq: "x @ c # join [c] xs' = y @ c # join [c] ys'" by simp
      from sep_split_unique[OF cx cy eq] have xy: "x = y" and j: "join [c] xs' = join [c] ys'" by auto
      have "xs' = ys'"
        using Cons.IH[of ys'] xs' Cons Cons.prems ys j by auto
      with xy ys show ?thesis by simp
    qed
  qed
qed

lemma joinAlias_join: "as \<noteq> [] \<Longrightarrow> joinAlias t as = join ''_'' (tname t # map name as)"
  by (cases as) (simp_all add: joinAlias_def)

section \<open>Facts about the example models\<close>

lemmas example_defs = exampleEnv_def users_def userModel_def postModel_def tagModel_def
  userTagModel_def userPosts_def postAuthor_def userTags_def userPostCount_def aProperty_def
  anAssociation_def
  getTable_def

lemmas lookup_defs = getLinkedProperty_def model_getProperty_def split_dot2_def
  findProperty_def findModel_def getAssociatedModel_def getProperty_def getFirstProperty_def

section \<open>Joins\<close>

lemma addManyToManyJoin_shape:
  "addManyToManyJoin E t q as a = Inr q' \<Longrightarrow>
   \<exists>thr ref c1 c2. q' =
      addJoin LeftOuterJoin (ref @ '' as '' @ joinAlias t as) (thr @ ''.'' @ c2) (joinAlias t as @ ''.id'')
        (addJoin LeftOuterJoin thr (thr @ ''.'' @ c1) (previousAlias t as @ ''.id'') q)"
  unfolding addManyToManyJoin_def
  by (auto simp: Let_def split: option.splits)

lemma addDirectJoin_shape:
  "addDirectJoin E t q as a = Inr q' \<Longrightarrow>
   q' = q \<or> (\<exists>ref x y. q' =
      addJoin (if required a then InnerJoin else LeftOuterJoin) (ref @ '' as '' @ joinAlias t as)
        (previousAlias t as @ ''.'' @ x) (joinAlias t as @ ''.'' @ y) q)"
  unfolding addDirectJoin_def
  by (auto simp: Let_def split: option.splits if_splits)

lemma addJoinStatement_cases:
  "addJoinStatement E t q as = Inr q' \<Longrightarrow>
     as \<noteq> [] \<and>
     (if isManyToMany (last as) then addManyToManyJoin E t q as (last as) = Inr q'
      else addDirectJoin E t q as (last as) = Inr q')"
  unfolding addJoinStatement_def by (auto simp: Let_def split: if_splits)

lemma addJoinStatement_last_join:
  assumes "addJoinStatement E t q as = Inr q'" "q' \<noteq> q"
  shows "\<exists>k ref a b. last (q_joins q') = Join k (ref @ '' as '' @ joinAlias t as) a b"
proof (cases "isManyToMany (last as)")
  case True
  with addJoinStatement_cases[OF assms(1)] have "addManyToManyJoin E t q as (last as) = Inr q'" by simp
  from addManyToManyJoin_shape[OF this] show ?thesis by (auto simp: addJoin_def)
next
  case False
  with addJoinStatement_cases[OF assms(1)] have "addDirectJoin E t q as (last as) = Inr q'" by simp
  from addDirectJoin_shape[OF this] assms(2) show ?thesis by (auto simp: addJoin_def)
qed

lemma example_manyToMany_join:
  "addJoinStatement exampleEnv users (knex_from ''users'') [userTags\<lparr>required := True\<rparr>] =
     Inr ((knex_from ''users'')\<lparr>q_joins :=
       [Join LeftOuterJoin ''user_tags'' ''user_tags.user_id'' ''users.id'',
        Join LeftOuterJoin ''tags as users_tags'' ''user_tags.tag_id'' ''users_tags.id'']\<rparr>)"
  by (simp add: addJoinStatement_def addManyToManyJoin_def example_defs knex_from_def addJoin_def
      lookup_defs joinAlias_def previousAlias_def)

lemma example_hasMany_join:
  "addJoinStatement exampleEnv users (knex_from ''users'') [userPosts\<lparr>required := True\<rparr>] =
     Inr ((knex_from ''users'')\<lparr>q_joins :=
       [Join InnerJoin ''posts as users_posts'' ''users.id'' ''users_posts.author_id'']\<rparr>)"
  by (simp add: addJoinStatement_def addDirectJoin_def example_defs knex_from_def addJoin_def
      lookup_defs joinAlias_def previousAlias_def truthyName_def)

lemma example_nested_join:
  "addJoinStatement exampleEnv users (knex_from ''users'') [userPosts, postAuthor] =
     Inr ((knex_from ''users'')\<lparr>q_joins :=
       [Join LeftOuterJoin ''users as users_posts_author'' ''users_posts.author_id''
          ''users_posts_author.id'']\<rparr>)"
  by (simp add: addJoinStatement_def addDirectJoin_def example_defs knex_from_def addJoin_def
      lookup_defs joinAlias_def previousAlias_def truthyName_def)

lemma addDirectJoin_emits:
  assumes "addDirectJoin E t q as a = Inr q'"
    and "truthyName (hasOne a) \<or> truthyName (hasMany a) \<or> belongsTo a"
  shows "\<exists>ref x y. q' = q\<lparr>q_joins := q_joins q @
      [Join (if required a then InnerJoin else LeftOuterJoin) (ref @ '' as '' @ joinAlias t as)
         (previousAlias t as @ ''.'' @ x) (joinAlias t as @ ''.'' @ y)]\<rparr>"
  using assms unfolding addDirectJoin_def addJoin_def
  by (auto simp: Let_def split: option.splits if_splits)

text \<open>
  What \<open>addJoinStatement\<close> emits, whenever it returns. For a hasOne, hasMany or
  belongsTo association (one that is not many-to-many): exactly one join, of the
  associated table under the alias of the chain, an inner join when the association is
  declared required and a left outer join otherwise. For a many-to-many association:
  exactly two joins, of the through table and of the associated table under the alias,
  both left outer joins whatever the association declares.
\<close>

theorem join_type_follows_required:
  assumes "addJoinStatement E t q as = Inr q'"
  shows "(\<not> isManyToMany (last as) \<longrightarrow>
        truthyName (hasOne (last as)) \<or> truthyName (hasMany (last as)) \<or> belongsTo (last as) \<longrightarrow>
        (\<exists>ref x y. q' = q\<lparr>q_joins := q_joins q @
           [Join (if required (last as) then InnerJoin else LeftOuterJoin)
              (ref @ '' as '' @ joinAlias t as) (previousAlias t as @ ''.'' @ x)
              (joinAlias t as @ ''.'' @ y)]\<rparr>)) \<and>
     (isManyToMany (last as) \<longrightarrow>
        (\<exists>thr ref c1 c2. q' = q\<lparr>q_joins := q_joins q @
           [Join LeftOuterJoin thr (thr @ ''.'' @ c1) (previousAlias t as @ ''.id''),
            Join LeftOuterJoin (ref @ '' as '' @ joinAlias t as) (thr @ ''.'' @ c2)
              (joinAlias t as @ ''.id'')]\<rparr>))"
proof (cases "isManyToMany (last as)")
  case True
  with addJoinStatement_cases[OF assms] have "addManyToManyJoin E t q as (last as) = Inr q'" by simp
  from addManyToManyJoin_shape[OF this] obtain thr ref c1 c2 where
    "q' = addJoin LeftOuterJoin (ref @ '' as '' @ joinAlias t as) (thr @ ''.'' @ c2) (joinAlias t as @ ''.id'')
        (addJoin LeftOuterJoin thr (thr @ ''.'' @ c1) (previousAlias t as @ ''.id'') q)" by blast
  then have "q' = q\<lparr>q_joins := q_joins q @
      [Join LeftOuterJoin thr (thr @ ''.'' @ c1) (previousAlias t as @ ''.id''),
       Join LeftOuterJoin (ref @ '' as '' @ joinAlias t as) (thr @ ''.'' @ c2) (joinAlias t as @ ''.id'')]\<rparr>"
    by (simp add: addJoin_def)
  with True show ?thesis by blast
next
  case False
  with addJoinStatement_cases[OF assms] have d: "addDirectJoin E t q as (last as) = Inr q'" by simp
  from False addDirectJoin_emits[OF d] show ?thesis by blast
qed

theorem join_type_follows_required_witness:
  "addJoinStatement exampleEnv users (knex_from ''users'') [userPosts\<lparr>required := True\<rparr>] =
     Inr ((knex_from ''users'')\<lparr>q_joins :=
       [Join InnerJoin ''posts as users_posts'' ''users.id'' ''users_posts.author_id'']\<rparr>) \<and>
   \<not> isManyToMany (userPosts\<lparr>required := True\<rparr>) \<and>
   truthyName (hasMany (userPosts\<lparr>required := True\<rparr>)) \<and>
   (\<exists>ref x y. (knex_from ''users'')\<lparr>q_joins :=
       [Join InnerJoin ''posts as users_posts'' ''users.id'' ''users_posts.author_id'']\<rparr>
         = (knex_from ''users'')\<lparr>q_joins := q_joins (knex_from ''users'') @
             [Join InnerJoin (ref @ '' as '' @ joinAlias users [userPosts\<lparr>required := True\<rparr>])
                (previousAlias users [userPosts\<lparr>required := True\<rparr>] @ ''.'' @ x)
                (joinAlias users [userPosts\<lparr>required := True\<rparr>] @ ''.'' @ y)]\<rparr>)"
  using join_type_follows_required[OF example_hasMany_join] example_hasMany_join
  by (simp add: userPosts_def anAssociation_def aProperty_def truthyName_def)

lemma example_manyToMany_join_optional:
  "addJoinStatement exampleEnv users (knex_from ''users'') [userTags] =
     Inr ((knex_from ''users'')\<lparr>q_joins :=
       [Join LeftOuterJoin ''user_tags'' ''user_tags.user_id'' ''users.id'',
        Join LeftOuterJoin ''tags as users_tags'' ''user_tags.tag_id'' ''users_tags.id'']\<rparr>)"
  by (simp add: addJoinStatement_def addManyToManyJoin_def example_defs knex_from_def addJoin_def
      lookup_defs joinAlias_def previousAlias_def)

text \<open>
  C5: \<open>addJoinStatement\<close> reads \<^verbatim>\<open>association.options.required\<close> in the branch of the
  hasOne, hasMany and belongsTo associations only. A hasMany association declared
  required is joined with an inner join; a many-to-many association declared required
  is joined with two left outer joins, the same two joins as when it is not required.
\<close>

theorem required_manyToMany_is_left_joined:
  "required (userPosts\<lparr>required := True\<rparr>) \<and> \<not> isManyToMany (userPosts\<lparr>required := True\<rparr>) \<and>
   addJoinStatement exampleEnv users (knex_from ''users'') [userPosts\<lparr>required := True\<rparr>] =
     Inr ((knex_from ''users'')\<lparr>q_joins :=
       [Join InnerJoin ''posts as users_posts'' ''users.id'' ''users_posts.author_id'']\<rparr>) \<and>
   required (userTags\<lparr>required := True\<rparr>) \<and> isManyToMany (userTags\<lparr>required := True\<rparr>) \<and>
   addJoinStatement exampleEnv users (knex_from ''users'') [userTags\<lparr>required := True\<rparr>] =
     Inr ((knex_from ''users'')\<lparr>q_joins :=
       [Join LeftOuterJoin ''user_tags'' ''user_tags.user_id'' ''users.id'',
        Join LeftOuterJoin ''tags as users_tags'' ''user_tags.tag_id'' ''users_tags.id'']\<rparr>) \<and>
   addJoinStatement exampleEnv users (knex_from ''users'') [userTags\<lparr>required := True\<rparr>] =
     addJoinStatement exampleEnv users (knex_from ''users'') [userTags]"
  using example_manyToMany_join example_manyToMany_join_optional example_hasMany_join
  by (simp add: userTags_def userPosts_def anAssociation_def aProperty_def)

text \<open>
  C6, as the claim states it, fails in its last part: the chains \<open>[a_b]\<close> and
  \<open>[a, b]\<close> are distinct and get the same alias.
\<close>

theorem alias_collision:
  "map name [anAssociation ''User'' ''a_b'' ''Post''] \<noteq>
     map name [anAssociation ''User'' ''a'' ''Post'', anAssociation ''Post'' ''b'' ''User''] \<and>
   joinAlias users [anAssociation ''User'' ''a_b'' ''Post''] =
     joinAlias users [anAssociation ''User'' ''a'' ''Post'', anAssociation ''Post'' ''b'' ''User''] \<and>
   selectAlias users [anAssociation ''User'' ''a_b'' ''Post''] =
     selectAlias users [anAssociation ''User'' ''a'' ''Post'', anAssociation ''Post'' ''b'' ''User'']"
  by (simp add: joinAlias_def selectAlias_def anAssociation_def aProperty_def users_def getTable_def)

text \<open>
  C6 (amended): for a non-empty chain of associations the alias of the joined table, in
  \<open>addJoinStatement\<close> and in \<open>addSelectColumnsForAssociation\<close>, is the root table name
  followed by the association names in traversal order, joined by underscores; the
  alias of the step before is the same rule on the chain without its last association;
  a join that \<open>addJoinStatement\<close> emits names its last table by that alias; and two
  non-empty chains from the same table whose association names hold no underscore have
  the same alias only if their names agree.
\<close>

theorem alias_of_chain:
  assumes "as \<noteq> []"
  shows "joinAlias t as = spec_alias (tname t) (map name as) \<and>
     selectAlias t as = spec_alias (tname t) (map name as) \<and>
     previousAlias t as = spec_alias (tname t) (map name (butlast as)) \<and>
     (\<forall>E q q'. addJoinStatement E t q as = Inr q' \<longrightarrow> q' \<noteq> q \<longrightarrow>
        (\<exists>k ref a b. last (q_joins q') =
           Join k (ref @ '' as '' @ spec_alias (tname t) (map name as)) a b)) \<and>
     (\<forall>bs. bs \<noteq> [] \<longrightarrow> (\<forall>n\<in>set (map name as) \<union> set (map name bs). CHR ''_'' \<notin> set n) \<longrightarrow>
        joinAlias t bs = joinAlias t as \<longrightarrow> map name bs = map name as)"
proof -
  have a1: "joinAlias t as = spec_alias (tname t) (map name as)"
    using assms by (simp add: joinAlias_join spec_alias_def join_Cons_foldl)
  have a2: "selectAlias t as = spec_alias (tname t) (map name as)"
    by (simp add: selectAlias_def spec_alias_def join_Cons_foldl)
  have a3: "previousAlias t as = spec_alias (tname t) (map name (butlast as))"
    by (simp add: previousAlias_def spec_alias_def join_Cons_foldl)
  have a4: "\<forall>E q q'. addJoinStatement E t q as = Inr q' \<longrightarrow> q' \<noteq> q \<longrightarrow>
        (\<exists>k ref a b. last (q_joins q') =
           Join k (ref @ '' as '' @ spec_alias (tname t) (map name as)) a b)"
    using addJoinStatement_last_join a1 by metis
  have a5: "map name bs = map name as"
    if b: "bs \<noteq> []" and u: "\<forall>n\<in>set (map name as) \<union> set (map name bs). CHR ''_'' \<notin> set n"
      and e: "joinAlias t bs = joinAlias t as" for bs
  proof -
    from e have "tname t @ ''_'' @ join ''_'' (map name bs) = tname t @ ''_'' @ join ''_'' (map name as)"
      by (simp add: joinAlias_def)
    then have "join [CHR ''_''] (map name bs) = join [CHR ''_''] (map name as)" by simp
    moreover have "map name bs \<noteq> []" "map name as \<noteq> []" using b assms by simp_all
    moreover have "\<forall>x\<in>set (map name bs). CHR ''_'' \<notin> set x" "\<forall>x\<in>set (map name as). CHR ''_'' \<notin> set x"
      using u by blast+
    ultimately show ?thesis by (rule join_inj[rotated 4])
  qed
  from a1 a2 a3 a4 a5 show ?thesis by blast
qed

theorem alias_of_chain_witness:
  "joinAlias users [userPosts, postAuthor] = ''users_posts_author'' \<and>
   spec_alias (tname users) (map name [userPosts, postAuthor]) = ''users_posts_author'' \<and>
   previousAlias users [userPosts, postAuthor] = ''users_posts'' \<and>
   selectAlias users [userPosts, postAuthor] = ''users_posts_author''"
  using alias_of_chain[of "[userPosts, postAuthor]" users]
  by (simp add: spec_alias_def example_defs)

section \<open>Schema statements\<close>

text \<open>
  C9: the call changes a changed property. With the clauses INTEGER, NOT NULL the
  first call produces the full ALTER COLUMN clause and leaves the property with the
  single clause INTEGER; the same call again produces a statement with nothing after
  SET.
\<close>

theorem alterStatement_splices_clauses:
  "clauses (exampleHeap 0) = [''INTEGER'', ''NOT NULL''] \<and>
   fst (alterStatement users exampleHeap None None (Some [0])) =
     ''ALTER TABLE '' @ quote ''users'' @ [CHR 0x0A, CHR 0x09] @ '' ALTER COLUMN '' @
     quote ''score'' @ '' TYPE INTEGER SET NOT NULL'' @ [CHR 0x0A] @ '';'' \<and>
   clauses (snd (alterStatement users exampleHeap None None (Some [0])) 0) = [''INTEGER''] \<and>
   fst (alterStatement users (snd (alterStatement users exampleHeap None None (Some [0])))
          None None (Some [0])) =
     ''ALTER TABLE '' @ quote ''users'' @ [CHR 0x0A, CHR 0x09] @ '' ALTER COLUMN '' @
     quote ''score'' @ '' TYPE INTEGER SET '' @ [CHR 0x0A] @ '';''"
  by (simp add: alterStatement_def alterColumn_def exampleHeap_def aProperty_def users_def
      getTable_def userModel_def getName_def quote_def clauses0_def Let_def)

section \<open>Loops\<close>


lemma forEach_rel:
  assumes step: "\<And>x s s'. x \<in> set xs \<Longrightarrow> f x s = Inr s' \<Longrightarrow> R s s'"
    and refl: "\<And>s. R s s" and trans: "\<And>a b c. R a b \<Longrightarrow> R b c \<Longrightarrow> R a c"
  shows "forEach f xs s = Inr s' \<Longrightarrow> R s s'"
  using step
proof (induction xs arbitrary: s)
  case Nil
  then show ?case using refl by simp
next
  case (Cons x xs)
  from Cons.prems(1) obtain s1 where s1: "f x s = Inr s1" and rest: "forEach f xs s1 = Inr s'"
    by (auto split: sum.splits)
  have "R s s1" using Cons.prems(2)[of x s s1] s1 by simp
  moreover have "R s1 s'"
  proof (rule Cons.IH[OF rest])
    fix y a b assume "y \<in> set xs" "f y a = Inr b"
    then show "R a b" using Cons.prems(2)[of y a b] by simp
  qed
  ultimately show ?case by (rule trans)
qed


section \<open>What the clause builders change\<close>

lemma applyOperator_appends:
  "applyOperator c kv q = Inr q' \<Longrightarrow> \<exists>cs. q' = q\<lparr>q_wheres := q_wheres q @ cs\<rparr>"
  unfolding applyOperator_def addWhere_def
  by (auto simp: Let_def split: option.splits if_splits jsval.splits)

lemma wheres_refl: "\<exists>cs. (q::query) = q\<lparr>q_wheres := q_wheres q @ cs\<rparr>"
  by (rule exI[of _ "[]"]) simp

lemma wheres_trans:
  "\<exists>cs. (b::query) = a\<lparr>q_wheres := q_wheres a @ cs\<rparr> \<Longrightarrow> \<exists>cs. c = b\<lparr>q_wheres := q_wheres b @ cs\<rparr> \<Longrightarrow>
   \<exists>cs. c = a\<lparr>q_wheres := q_wheres a @ cs\<rparr>"
proof -
  assume "\<exists>cs. b = a\<lparr>q_wheres := q_wheres a @ cs\<rparr>" "\<exists>cs. c = b\<lparr>q_wheres := q_wheres b @ cs\<rparr>"
  then obtain c1 c2 where "b = a\<lparr>q_wheres := q_wheres a @ c1\<rparr>" "c = b\<lparr>q_wheres := q_wheres b @ c2\<rparr>" by blast
  then have "c = a\<lparr>q_wheres := q_wheres a @ (c1 @ c2)\<rparr>" by simp
  then show ?thesis by blast
qed

lemma addValueClause_appends:
  assumes "addValueClause q c v p = Inr q'"
  shows "\<exists>cs. q' = q\<lparr>q_wheres := q_wheres q @ cs\<rparr>"
proof (cases "\<exists>kvs. v = VObject kvs \<and> addValueClause q c v p = forEach (applyOperator c) kvs q")
  case True
  then obtain kvs where "forEach (applyOperator c) kvs q = Inr q'" using assms by auto
  then show ?thesis
    by (rule forEach_rel[where R="\<lambda>a b. \<exists>cs. b = a\<lparr>q_wheres := q_wheres a @ cs\<rparr>", rotated 3])
       (auto intro: applyOperator_appends wheres_refl wheres_trans)
next
  case False
  with assms show ?thesis
    unfolding addValueClause_def addWhere_def
    by (auto split: option.splits if_splits jsval.splits)
qed

lemma whereExistsClause_appends:
  "\<exists>cs. whereExistsClause E t p fp v q = q\<lparr>q_wheres := q_wheres q @ cs\<rparr>"
  unfolding whereExistsClause_def addWhere_def by blast

lemma whereProperty_appends:
  "whereProperty E t nf entry q = Inr q' \<Longrightarrow> \<exists>cs. q' = q\<lparr>q_wheres := q_wheres q @ cs\<rparr>"
  unfolding whereProperty_def
  using whereExistsClause_appends
  by (auto split: option.splits sum.splits dest: addValueClause_appends)

lemma whereEntry_appends:
  "whereEntry E t entry q = Inr q' \<Longrightarrow> \<exists>cs. q' = q\<lparr>q_wheres := q_wheres q @ cs\<rparr>"
  unfolding whereEntry_def addWhere_def
  by (auto split: if_splits dest: whereProperty_appends)

lemma addWhereClause_appends:
  assumes "addWhereClause E t q m = Inr q'"
  shows "\<exists>cs. q' = q\<lparr>q_wheres := q_wheres q @ cs\<rparr>"
  using assms unfolding addWhereClause_def
  by (rule forEach_rel[where R="\<lambda>a b. \<exists>cs. b = a\<lparr>q_wheres := q_wheres a @ cs\<rparr>", rotated 3])
     (auto intro: whereEntry_appends wheres_refl wheres_trans)

lemma sortEntry_appends:
  "sortEntry E t entry q = Inr q' \<Longrightarrow> \<exists>os. q' = q\<lparr>q_orderBy := q_orderBy q @ os\<rparr>"
  unfolding sortEntry_def orderBy_def
  by (auto split: option.splits sum.splits if_splits sortValue.splits)

lemma orders_refl: "\<exists>os. (q::query) = q\<lparr>q_orderBy := q_orderBy q @ os\<rparr>"
  by (rule exI[of _ "[]"]) simp

lemma orders_trans:
  "\<exists>os. (b::query) = a\<lparr>q_orderBy := q_orderBy a @ os\<rparr> \<Longrightarrow> \<exists>os. c = b\<lparr>q_orderBy := q_orderBy b @ os\<rparr> \<Longrightarrow>
   \<exists>os. c = a\<lparr>q_orderBy := q_orderBy a @ os\<rparr>"
proof -
  assume "\<exists>os. b = a\<lparr>q_orderBy := q_orderBy a @ os\<rparr>" "\<exists>os. c = b\<lparr>q_orderBy := q_orderBy b @ os\<rparr>"
  then obtain c1 c2 where "b = a\<lparr>q_orderBy := q_orderBy a @ c1\<rparr>" "c = b\<lparr>q_orderBy := q_orderBy b @ c2\<rparr>" by blast
  then have "c = a\<lparr>q_orderBy := q_orderBy a @ (c1 @ c2)\<rparr>" by simp
  then show ?thesis by blast
qed

lemma addSortClause_appends:
  assumes "addSortClause E t q s = Inr q'"
  shows "\<exists>os. q' = q\<lparr>q_orderBy := q_orderBy q @ os\<rparr>"
proof (cases "\<exists>m. s = Some (SortMap m)")
  case True
  then obtain m where "forEach (sortEntry E t) m q = Inr q'"
    using assms by (auto simp: addSortClause_def truthySort_def)
  then show ?thesis
    by (rule forEach_rel[where R="\<lambda>a b. \<exists>os. b = a\<lparr>q_orderBy := q_orderBy a @ os\<rparr>", rotated 3])
       (auto intro: sortEntry_appends orders_refl orders_trans)
next
  case False
  with assms have "q' = q"
    by (auto simp: addSortClause_def split: if_splits option.splits sortArg.splits)
  then show ?thesis using orders_refl by simp
qed

section \<open>RETURNING\<close>






section \<open>SET\<close>







lemma addLimitClause_fields:
  "q_limit (addLimitClause q limit) = (if positive limit then limit else q_limit q)"
  "q_wheres (addLimitClause q limit) = q_wheres q" "q_orderBy (addLimitClause q limit) = q_orderBy q"
  "q_from (addLimitClause q limit) = q_from q" "q_method (addLimitClause q limit) = q_method q"
  "q_offset (addLimitClause q limit) = q_offset q" "q_joins (addLimitClause q limit) = q_joins q"
  by (simp_all add: addLimitClause_def)

lemma addOffsetClause_fields:
  "q_offset (addOffsetClause q skip) = (if positive skip then skip else q_offset q)"
  "q_wheres (addOffsetClause q skip) = q_wheres q" "q_orderBy (addOffsetClause q skip) = q_orderBy q"
  "q_from (addOffsetClause q skip) = q_from q" "q_method (addOffsetClause q skip) = q_method q"
  "q_limit (addOffsetClause q skip) = q_limit q" "q_joins (addOffsetClause q skip) = q_joins q"
  by (simp_all add: addOffsetClause_def)




section \<open>assign\<close>

lemma map_of_assign_same: "map_of (assign w k v) k = Some v"
  by (induction w k v rule: assign.induct) auto

lemma map_of_assign_other: "k' \<noteq> k \<Longrightarrow> map_of (assign w k v) k' = map_of w k'"
  by (induction w k v rule: assign.induct) auto

text \<open>
  C10: called with a where map, \<open>createSearchStatement\<close> leaves the caller's map with
  the key \<open>id\<close> set to an \<open>$in\<close> condition on the subquery of the ids whose search
  vector matches \<open>to_tsquery\<close> of the search text: an \<open>id\<close> condition of the caller
  is overwritten, every other key keeps its value, and the map so changed is what
  \<open>createSelectStatement\<close> is called with.
\<close>

theorem search_writes_id_into_where:
  "fst (createSearchStatement E t searchText (Some w) limit skip sortArg groupArg select fetchAssociations
          autoFetchDepth) = Some (assign w ''id'' (searchCondition t searchText)) \<and>
   searchCondition t searchText =
     VObject [(''$in'', VBuilder (Subquery [''id''] (tname t) ''_search @@ to_tsquery(?)'' [searchText]))] \<and>
   map_of (assign w ''id'' (searchCondition t searchText)) ''id'' = Some (searchCondition t searchText) \<and>
   (\<forall>k. k \<noteq> ''id'' \<longrightarrow> map_of (assign w ''id'' (searchCondition t searchText)) k = map_of w k) \<and>
   snd (createSearchStatement E t searchText (Some w) limit skip sortArg groupArg select fetchAssociations
          autoFetchDepth) =
     createSelectStatement E t (Some (assign w ''id'' (searchCondition t searchText))) limit skip sortArg
       groupArg select fetchAssociations autoFetchDepth"
  by (simp add: createSearchStatement_def Let_def map_of_assign_same map_of_assign_other
      searchCondition_def)

theorem search_writes_id_into_where_witness:
  "fst (createSearchStatement exampleEnv users ''fire'' (Some [(''id'', VNum 5), (''name'', VStr ''Alice'')])
          None None None None None None (Some 5)) =
     Some [(''id'', VObject [(''$in'', VBuilder (Subquery [''id''] ''users'' ''_search @@ to_tsquery(?)'' [''fire'']))]),
           (''name'', VStr ''Alice'')] \<and>
   map_of [(''id'', VObject [(''$in'', VBuilder (Subquery [''id''] ''users'' ''_search @@ to_tsquery(?)'' [''fire'']))]),
           (''name'', VStr ''Alice'')] ''name'' = map_of [(''id'', VNum 5), (''name'', VStr ''Alice'')] ''name''"
  using search_writes_id_into_where[of exampleEnv users "''fire''" "[(''id'', VNum 5), (''name'', VStr ''Alice'')]"
      None None None None None None "Some 5"]
  by (simp add: searchCondition_def users_def getTable_def userModel_def)

section \<open>SET\<close>

text \<open>
  C8: a directive key that is neither \<open>$inc\<close> nor \<open>$decr\<close> is refused only when the
  lookup in the object literal finds nothing. The key \<open>$mul\<close> is refused by name; the
  key \<open>constructor\<close>, which every object literal inherits, is found, called and
  returns: no error, no increment, and an UPDATE with an empty SET.
\<close>

theorem inherited_directive_is_not_refused:
  "createUpdateStatement exampleEnv users (Some [(''id'', VNum 5)])
     (Some [(''score'', SetValue (VObject [(''$mul'', VNum 2)]))]) None None None =
     Inl (Error ''Invalid transformer `$mul`.'') \<and>
   \<not> isl (createUpdateStatement exampleEnv users (Some [(''id'', VNum 5)])
     (Some [(''score'', SetValue (VObject [(''constructor'', VNum 2)]))]) None None None) \<and>
   q_update (outer (projr (createUpdateStatement exampleEnv users (Some [(''id'', VNum 5)])
     (Some [(''score'', SetValue (VObject [(''constructor'', VNum 2)]))]) None None None))) = Some [] \<and>
   q_counters (outer (projr (createUpdateStatement exampleEnv users (Some [(''id'', VNum 5)])
     (Some [(''score'', SetValue (VObject [(''constructor'', VNum 2)]))]) None None None))) = []"
  by code_simp

section \<open>Operators\<close>

lemma addValueClause_operators:
  "\<not> truthyName (rawWhere p) \<Longrightarrow>
   addValueClause q column (VObject kvs) (Some p) = forEach (applyOperator column) kvs q"
  by (simp add: addValueClause_def)

lemma WHERE_TRANSFORMER_own:
  "WHERE_TRANSFORMER ''$is'' = Some (Operators [''='', ''IS''])"
  "WHERE_TRANSFORMER ''$gte'' = Some (Operators [''>=''])"
  "WHERE_TRANSFORMER ''$gt'' = Some (Operators [''>''])"
  "WHERE_TRANSFORMER ''$lt'' = Some (Operators [''<''])"
  "WHERE_TRANSFORMER ''$lte'' = Some (Operators [''<=''])"
  "WHERE_TRANSFORMER ''$not'' = Some (Operators [''!='', ''IS NOT''])"
  "WHERE_TRANSFORMER ''$like'' = Some (Operators [''LIKE''])"
  "WHERE_TRANSFORMER ''$ilike'' = Some (Operators [''ILIKE''])"
  "WHERE_TRANSFORMER ''$regex'' = Some (Operators [''~''])"
  "WHERE_TRANSFORMER ''$or'' = Some (Operators [])"
  "WHERE_TRANSFORMER ''$in'' = Some (Operators [])"
  by (simp_all add: WHERE_TRANSFORMER_def)

lemma WHERE_TRANSFORMER_unknown:
  assumes "key \<notin> set [''$is'', ''$gte'', ''$gt'', ''$lt'', ''$lte'', ''$not'', ''$like'', ''$ilike'',
      ''$regex'', ''$or'', ''$in'']" "key \<notin> set object_prototype_names"
  shows "WHERE_TRANSFORMER key = None"
proof -
  have 1: "map_of [(''$is'', [''='', ''IS'']), (''$gte'', [''>='']), (''$gt'', [''>'']), (''$lt'', [''<'']),
         (''$lte'', [''<='']), (''$not'', [''!='', ''IS NOT'']), (''$like'', [''LIKE'']),
         (''$ilike'', [''ILIKE'']), (''$regex'', [''~'']), (''$or'', []), (''$in'', [])] key = None"
    using assms(1) by (simp add: map_of_eq_None_iff)
  have 2: "map_of [(''constructor'', Some 1), (''toString'', Some 0), (''toLocaleString'', Some 0),
              (''valueOf'', Some 0), (''hasOwnProperty'', Some 1), (''isPrototypeOf'', Some 1),
              (''propertyIsEnumerable'', Some 1), (''__proto__'', None),
              (''__defineGetter__'', Some 2), (''__defineSetter__'', Some 2),
              (''__lookupGetter__'', Some 1), (''__lookupSetter__'', Some (1::nat))] key = None"
    using assms(2) by (simp add: map_of_eq_None_iff object_prototype_names_def)
  show ?thesis unfolding WHERE_TRANSFORMER_def by (simp only: 1 2 option.case)
qed

lemma operator_applied:
  assumes "WHERE_TRANSFORMER key = Some (Operators (op # ops))" "key \<noteq> ''$or''" "key \<noteq> ''$in''"
    "v \<noteq> VNull" "key = ''$not'' \<longrightarrow> (\<forall>xs. v \<noteq> VArray xs)"
  shows "applyOperator column (key, v) q = Inr (addWhere (WhereOp column (Some op) v) q)"
  using assms by (cases v) (simp_all add: applyOperator_def operatorAt_def Let_def)

lemma operator_null:
  assumes "WHERE_TRANSFORMER key = Some (Operators ops)" "key \<noteq> ''$or''" "key \<noteq> ''$in''"
  shows "applyOperator column (key, VNull) q =
     (if length ops \<le> 1 then Inl (Error (''Cannot use transformer `'' @ key @ ''` with NULL value.''))
      else Inr (addWhere (WhereRaw (column @ '' '' @ ops ! 1 @ '' null'') []) q))"
  using assms by (simp add: applyOperator_def operatorAt_def Let_def lengthAtMost1_def textOf_def)

lemma operator_unknown:
  assumes "WHERE_TRANSFORMER key = None"
  shows "applyOperator column (key, v) q = Inl (Error (''Invalid transformer `'' @ key @ ''`.''))"
  using assms by (simp add: applyOperator_def Let_def)

lemma operator_in: "applyOperator column (''$in'', v) q = Inr (addWhere (WhereIn column v) q)"
  by (simp add: applyOperator_def Let_def WHERE_TRANSFORMER_own)

lemma operator_or:
  "applyOperator column (''$or'', v) q = Inr (addWhere (WhereWrapped (orClauses column v)) q)"
  by (simp add: applyOperator_def Let_def WHERE_TRANSFORMER_own)

lemma operator_or_array:
  "applyOperator column (''$or'', VArray (x # xs)) q =
     Inr (addWhere (WhereWrapped (Inr (Where column x # map (OrWhere column) xs))) q)"
  by (simp add: operator_or orClauses_def)

lemma operator_or_null:
  "applyOperator column (''$or'', VNull) q =
     Inr (addWhere (WhereWrapped (Inl (TypeError ''ors.forEach''))) q)"
  by (simp add: operator_or orClauses_def)

lemma operator_not_in:
  "applyOperator column (''$not'', VArray xs) q = Inr (addWhere (WhereNotIn column (map toQueryValue xs)) q)"
  by (simp add: applyOperator_def Let_def WHERE_TRANSFORMER_own)

lemma operators_each:
  "\<forall>(key, op) \<in> set [(''$is'', ''=''), (''$gte'', ''>=''), (''$gt'', ''>''), (''$lt'', ''<''),
       (''$lte'', ''<=''), (''$not'', ''!=''), (''$like'', ''LIKE''), (''$ilike'', ''ILIKE''),
       (''$regex'', ''~'')].
     v \<noteq> VNull \<longrightarrow> (key = ''$not'' \<longrightarrow> (\<forall>xs. v \<noteq> VArray xs)) \<longrightarrow>
     applyOperator column (key, v) q = Inr (addWhere (WhereOp column (Some op) v) q)"
proof -
  have a: "v \<noteq> VNull \<Longrightarrow> applyOperator column (''$is'', v) q = Inr (addWhere (WhereOp column (Some ''='') v) q)"
    by (rule operator_applied[OF WHERE_TRANSFORMER_own(1)]) simp_all
  have b: "v \<noteq> VNull \<Longrightarrow> applyOperator column (''$gte'', v) q = Inr (addWhere (WhereOp column (Some ''>='') v) q)"
    by (rule operator_applied[OF WHERE_TRANSFORMER_own(2)]) simp_all
  have c: "v \<noteq> VNull \<Longrightarrow> applyOperator column (''$gt'', v) q = Inr (addWhere (WhereOp column (Some ''>'') v) q)"
    by (rule operator_applied[OF WHERE_TRANSFORMER_own(3)]) simp_all
  have d: "v \<noteq> VNull \<Longrightarrow> applyOperator column (''$lt'', v) q = Inr (addWhere (WhereOp column (Some ''<'') v) q)"
    by (rule operator_applied[OF WHERE_TRANSFORMER_own(4)]) simp_all
  have e: "v \<noteq> VNull \<Longrightarrow> applyOperator column (''$lte'', v) q = Inr (addWhere (WhereOp column (Some ''<='') v) q)"
    by (rule operator_applied[OF WHERE_TRANSFORMER_own(5)]) simp_all
  have f: "v \<noteq> VNull \<Longrightarrow> (\<forall>xs. v \<noteq> VArray xs) \<Longrightarrow>
      applyOperator column (''$not'', v) q = Inr (addWhere (WhereOp column (Some ''!='') v) q)"
    by (rule operator_applied[OF WHERE_TRANSFORMER_own(6)]) simp_all
  have g: "v \<noteq> VNull \<Longrightarrow> applyOperator column (''$like'', v) q = Inr (addWhere (WhereOp column (Some ''LIKE'') v) q)"
    by (rule operator_applied[OF WHERE_TRANSFORMER_own(7)]) simp_all
  have h: "v \<noteq> VNull \<Longrightarrow> applyOperator column (''$ilike'', v) q = Inr (addWhere (WhereOp column (Some ''ILIKE'') v) q)"
    by (rule operator_applied[OF WHERE_TRANSFORMER_own(8)]) simp_all
  have i: "v \<noteq> VNull \<Longrightarrow> applyOperator column (''$regex'', v) q = Inr (addWhere (WhereOp column (Some ''~'') v) q)"
    by (rule operator_applied[OF WHERE_TRANSFORMER_own(9)]) simp_all
  from a b c d e f g h i show ?thesis by simp
qed

lemma operators_null_refused:
  "\<forall>key \<in> set [''$gte'', ''$gt'', ''$lt'', ''$lte'', ''$like'', ''$ilike'', ''$regex''].
     applyOperator column (key, VNull) q =
       Inl (Error (''Cannot use transformer `'' @ key @ ''` with NULL value.''))"
proof -
  have b: "applyOperator column (''$gte'', VNull) q = Inl (Error (''Cannot use transformer `'' @ ''$gte'' @ ''` with NULL value.''))"
    using operator_null[OF WHERE_TRANSFORMER_own(2)] by simp
  have c: "applyOperator column (''$gt'', VNull) q = Inl (Error (''Cannot use transformer `'' @ ''$gt'' @ ''` with NULL value.''))"
    using operator_null[OF WHERE_TRANSFORMER_own(3)] by simp
  have d: "applyOperator column (''$lt'', VNull) q = Inl (Error (''Cannot use transformer `'' @ ''$lt'' @ ''` with NULL value.''))"
    using operator_null[OF WHERE_TRANSFORMER_own(4)] by simp
  have e: "applyOperator column (''$lte'', VNull) q = Inl (Error (''Cannot use transformer `'' @ ''$lte'' @ ''` with NULL value.''))"
    using operator_null[OF WHERE_TRANSFORMER_own(5)] by simp
  have g: "applyOperator column (''$like'', VNull) q = Inl (Error (''Cannot use transformer `'' @ ''$like'' @ ''` with NULL value.''))"
    using operator_null[OF WHERE_TRANSFORMER_own(7)] by simp
  have h: "applyOperator column (''$ilike'', VNull) q = Inl (Error (''Cannot use transformer `'' @ ''$ilike'' @ ''` with NULL value.''))"
    using operator_null[OF WHERE_TRANSFORMER_own(8)] by simp
  have i: "applyOperator column (''$regex'', VNull) q = Inl (Error (''Cannot use transformer `'' @ ''$regex'' @ ''` with NULL value.''))"
    using operator_null[OF WHERE_TRANSFORMER_own(9)] by simp
  from b c d e g h i show ?thesis by simp
qed

lemma operators_null_safe:
  "applyOperator column (''$is'', VNull) q = Inr (addWhere (WhereRaw (column @ '' IS null'') []) q)"
  "applyOperator column (''$not'', VNull) q = Inr (addWhere (WhereRaw (column @ '' IS NOT null'') []) q)"
  using operator_null[OF WHERE_TRANSFORMER_own(1), of column q]
    operator_null[OF WHERE_TRANSFORMER_own(6), of column q] by simp_all

text \<open>
  C7: an operator key is refused only when the lookup \<^verbatim>\<open>Table.WHERE_TRANSFORMER[key]\<close>
  finds nothing. The key \<open>$between\<close> is refused by name. The key \<open>constructor\<close>, which
  every object literal inherits, is found: no error is raised, and \<^verbatim>\<open>transformer[0]\<close>,
  which is undefined, is handed to \<^verbatim>\<open>query.where\<close> as the operator; the statement is
  returned with that clause.
\<close>

theorem inherited_operator_is_not_refused:
  "addWhereClause exampleEnv users (knex_from ''users'') [(''name'', VObject [(''$between'', VNum 1)])] =
     Inl (Error ''Invalid transformer `$between`.'') \<and>
   WHERE_TRANSFORMER ''$between'' = None \<and>
   WHERE_TRANSFORMER ''constructor'' = Some (Inherited (Some 1)) \<and>
   addWhereClause exampleEnv users (knex_from ''users'') [(''name'', VObject [(''constructor'', VNum 1)])] =
     Inr ((knex_from ''users'')\<lparr>q_wheres := [WhereOp ''users.name'' None (VNum 1)]\<rparr>) \<and>
   \<not> isl (createSelectStatement exampleEnv users (Some [(''name'', VObject [(''constructor'', VNum 1)])])
            None None None None None None (Some 5)) \<and>
   q_wheres (outer (projr (createSelectStatement exampleEnv users
       (Some [(''name'', VObject [(''constructor'', VNum 1)])]) None None None None None None (Some 5)))) =
     [WhereOp ''users.name'' None (VNum 1)]"
  by code_simp

text \<open>
  The keys \<open>$in\<close> and \<open>$or\<close> are dispatched before the test for null: their entries in
  the table are empty (no NULL-safe form), yet \<open>{name: {$in: null}}\<close> raises nothing
  and becomes a WHERE IN with the value null, and \<open>{name: {$or: null}}\<close> raises nothing
  where it is built: \<^verbatim>\<open>ors.forEach\<close> is inside the callback handed to knex.
\<close>

theorem null_with_in_is_not_refused:
  "WHERE_TRANSFORMER ''$in'' = Some (Operators []) \<and> lengthAtMost1 (Operators []) \<and>
   addWhereClause exampleEnv users (knex_from ''users'') [(''name'', VObject [(''$in'', VNull)])] =
     Inr ((knex_from ''users'')\<lparr>q_wheres := [WhereIn ''users.name'' VNull]\<rparr>) \<and>
   WHERE_TRANSFORMER ''$or'' = Some (Operators []) \<and>
   addWhereClause exampleEnv users (knex_from ''users'') [(''name'', VObject [(''$or'', VNull)])] =
     Inr ((knex_from ''users'')\<lparr>q_wheres := [WhereWrapped (Inl (TypeError ''ors.forEach''))]\<rparr>)"
  by code_simp

text \<open>
  The operators of an operator object, as \<open>addValueClause\<close> applies them in the order
  of the keys (for a property without a raw where template): each of \<open>$is\<close>, \<open>$gte\<close>,
  \<open>$gt\<close>, \<open>$lt\<close>, \<open>$lte\<close>, \<open>$not\<close>, \<open>$like\<close>, \<open>$ilike\<close>, \<open>$regex\<close> with a value
  other than null (and, for \<open>$not\<close>, other than an array) compares the column with the
  value by its SQL operator; \<open>$in\<close> becomes a WHERE IN whatever the value; \<open>$or\<close>
  hands knex a callback, which for an array adds one alternative for every element
  (\<^verbatim>\<open>where\<close> the first, \<^verbatim>\<open>orWhere\<close> the others) and for null throws a TypeError;
  \<open>$not\<close> with an array becomes a NOT IN; \<open>$is\<close> and \<open>$not\<close> with null become IS null
  and IS NOT null; each of the other seven comparison keys with null raises the error
  that names the key; and a key that is neither one of the eleven nor the name of a
  member inherited from \<open>Object.prototype\<close> raises the error that names it.
\<close>

theorem where_operators:
  "(\<forall>(key, op) \<in> set [(''$is'', ''=''), (''$gte'', ''>=''), (''$gt'', ''>''), (''$lt'', ''<''),
       (''$lte'', ''<=''), (''$not'', ''!=''), (''$like'', ''LIKE''), (''$ilike'', ''ILIKE''),
       (''$regex'', ''~'')].
     v \<noteq> VNull \<longrightarrow> (key = ''$not'' \<longrightarrow> (\<forall>xs. v \<noteq> VArray xs)) \<longrightarrow>
     applyOperator column (key, v) q = Inr (addWhere (WhereOp column (Some op) v) q)) \<and>
   applyOperator column (''$in'', v) q = Inr (addWhere (WhereIn column v) q) \<and>
   applyOperator column (''$or'', VArray []) q = Inr (addWhere (WhereWrapped (Inr [])) q) \<and>
   applyOperator column (''$or'', VArray (x # xs)) q =
     Inr (addWhere (WhereWrapped (Inr (Where column x # map (OrWhere column) xs))) q) \<and>
   applyOperator column (''$or'', VNull) q =
     Inr (addWhere (WhereWrapped (Inl (TypeError ''ors.forEach''))) q) \<and>
   applyOperator column (''$not'', VArray xs) q =
     Inr (addWhere (WhereNotIn column (map toQueryValue xs)) q) \<and>
   applyOperator column (''$is'', VNull) q = Inr (addWhere (WhereRaw (column @ '' IS null'') []) q) \<and>
   applyOperator column (''$not'', VNull) q = Inr (addWhere (WhereRaw (column @ '' IS NOT null'') []) q) \<and>
   (\<forall>key \<in> set [''$gte'', ''$gt'', ''$lt'', ''$lte'', ''$like'', ''$ilike'', ''$regex''].
     applyOperator column (key, VNull) q =
       Inl (Error (''Cannot use transformer `'' @ key @ ''` with NULL value.''))) \<and>
   (unknown \<notin> set [''$is'', ''$gte'', ''$gt'', ''$lt'', ''$lte'', ''$not'', ''$like'', ''$ilike'',
        ''$regex'', ''$or'', ''$in''] \<longrightarrow> unknown \<notin> set object_prototype_names \<longrightarrow>
     applyOperator column (unknown, v) q = Inl (Error (''Invalid transformer `'' @ unknown @ ''`.''))) \<and>
   (\<not> truthyName (rawWhere p) \<longrightarrow>
     addValueClause q column (VObject kvs) (Some p) = forEach (applyOperator column) kvs q)"
proof -
  have u: "unknown \<notin> set [''$is'', ''$gte'', ''$gt'', ''$lt'', ''$lte'', ''$not'', ''$like'', ''$ilike'',
        ''$regex'', ''$or'', ''$in''] \<longrightarrow> unknown \<notin> set object_prototype_names \<longrightarrow>
     applyOperator column (unknown, v) q = Inl (Error (''Invalid transformer `'' @ unknown @ ''`.''))"
    using operator_unknown[OF WHERE_TRANSFORMER_unknown] by blast
  have o: "\<not> truthyName (rawWhere p) \<longrightarrow>
     addValueClause q column (VObject kvs) (Some p) = forEach (applyOperator column) kvs q"
    using addValueClause_operators by blast
  have e: "applyOperator column (''$or'', VArray []) q = Inr (addWhere (WhereWrapped (Inr [])) q)"
    by (simp add: operator_or orClauses_def)
  show ?thesis
    by (intro conjI operators_each operator_in e operator_or_array operator_or_null operator_not_in
        operators_null_safe operators_null_refused u o)
qed

theorem where_operators_witness:
  "addWhereClause exampleEnv users (knex_from ''users'')
     [(''score'', VObject [(''$gte'', VNum 3), (''$not'', VArray [VNum 7]), (''$is'', VNull)])] =
     Inr ((knex_from ''users'')\<lparr>q_wheres :=
       [WhereOp ''users.score'' (Some ''>='') (VNum 3), WhereNotIn ''users.score'' [VNum 7],
        WhereRaw ''users.score IS null'' []]\<rparr>) \<and>
   applyOperator ''users.score'' (''$gte'', VNum 3) (knex_from ''users'') =
     Inr (addWhere (WhereOp ''users.score'' (Some ''>='') (VNum 3)) (knex_from ''users'')) \<and>
   applyOperator ''users.score'' (''$lt'', VNull) (knex_from ''users'') =
     Inl (Error ''Cannot use transformer `$lt` with NULL value.'') \<and>
   applyOperator ''users.score'' (''$between'', VNum 3) (knex_from ''users'') =
     Inl (Error ''Invalid transformer `$between`.'')"
proof -
  have 1: "addWhereClause exampleEnv users (knex_from ''users'')
     [(''score'', VObject [(''$gte'', VNum 3), (''$not'', VArray [VNum 7]), (''$is'', VNull)])] =
     Inr ((knex_from ''users'')\<lparr>q_wheres :=
       [WhereOp ''users.score'' (Some ''>='') (VNum 3), WhereNotIn ''users.score'' [VNum 7],
        WhereRaw ''users.score IS null'' []]\<rparr>)"
    by code_simp
  have 2: "''$between'' \<notin> set object_prototype_names" by (simp add: object_prototype_names_def)
  show ?thesis
    using where_operators[where v = "VNum 3" and column = "''users.score''" and q = "knex_from ''users''"
        and unknown = "''$between''" and p = "aProperty ''User'' ''score''" and kvs = "[]" and xs = "[]"
        and x = VNull] 1 2
    by simp
qed





section \<open>Unknown properties\<close>

lemma includes_text_append: "includes_text pat (a @ pat @ b)"
proof (induction a)
  case Nil
  have "startsWith pat (pat @ b)" by (simp add: startsWith_def)
  then show ?case by (cases "pat @ b") (auto simp: startsWith_def)
next
  case (Cons c a)
  then show ?case by simp
qed







lemma orBranch_unknown:
  assumes "getProperty E t k = None"
  shows "\<exists>msg. orBranch E t pn (VObject ((k, v) # rest)) = Inl (Error msg) \<and> includes_text (tname t) msg"
proof -
  let ?msg = "''Cannot find property with name `'' @ pn @ ''` on $or on table `'' @
                     tname t @ ''`. Did you specify an invalid property name in where clause?''"
  have "orBranch E t pn (VObject ((k, v) # rest)) = Inl (Error ?msg)"
    using assms by (simp add: orBranch_def objectKeys_def whereProperty_def)
  moreover have "includes_text (tname t) ?msg"
    using includes_text_append[of "tname t" "''Cannot find property with name `'' @ pn @ ''` on $or on table `''"
        "''`. Did you specify an invalid property name in where clause?''"]
    by simp
  ultimately show ?thesis by blast
qed

section \<open>A failing clause fails the statement\<close>


























section \<open>What the SELECT builders change\<close>

lemma addComputedColumn_frame:
  "addComputedColumn E p bare as q = Inr q' \<Longrightarrow> \<exists>cols. q' = q\<lparr>q_columns := q_columns q @ cols\<rparr>"
  unfolding addComputedColumn_def addColumnTo_def
  by (auto split: sum.splits option.splits intro: exI[of _ "[]"])

lemma columns_refl: "\<exists>cols. (q::query) = q\<lparr>q_columns := q_columns q @ cols\<rparr>"
  by (rule exI[of _ "[]"]) simp

lemma columns_trans:
  "\<exists>cs. (b::query) = a\<lparr>q_columns := q_columns a @ cs\<rparr> \<Longrightarrow> \<exists>cs. c = b\<lparr>q_columns := q_columns b @ cs\<rparr> \<Longrightarrow>
   \<exists>cs. c = a\<lparr>q_columns := q_columns a @ cs\<rparr>"
proof -
  assume "\<exists>cs. b = a\<lparr>q_columns := q_columns a @ cs\<rparr>" "\<exists>cs. c = b\<lparr>q_columns := q_columns b @ cs\<rparr>"
  then obtain c1 c2 where "b = a\<lparr>q_columns := q_columns a @ c1\<rparr>" "c = b\<lparr>q_columns := q_columns b @ c2\<rparr>" by blast
  then have "c = a\<lparr>q_columns := q_columns a @ (c1 @ c2)\<rparr>" by simp
  then show ?thesis by blast
qed

lemma sortColumn_frame:
  "sortColumn E t entry q = Inr q' \<Longrightarrow> \<exists>cols. q' = q\<lparr>q_columns := q_columns q @ cols\<rparr>"
  unfolding sortColumn_def by (auto split: option.splits dest: addComputedColumn_frame)

lemma sortColumns_frame:
  assumes "sortColumns E t s q = Inr q'"
  shows "\<exists>cols. q' = q\<lparr>q_columns := q_columns q @ cols\<rparr>"
proof (cases "\<exists>m. s = Some (SortMap m) \<and> truthySort s")
  case True
  then obtain m where "forEach (sortColumn E t) m q = Inr q'"
    using assms by (auto simp: sortColumns_def)
  then show ?thesis
    by (rule forEach_rel[where R="\<lambda>a b. \<exists>cs. b = a\<lparr>q_columns := q_columns a @ cs\<rparr>", rotated 3])
       (auto intro: sortColumn_frame columns_refl columns_trans)
next
  case False
  with assms have "q' = q"
    by (auto simp: sortColumns_def split: if_splits option.splits sortArg.splits)
  then show ?thesis using columns_refl by simp
qed

lemma selectColumn_frame:
  "selectColumn E t sel g p q = Inr q' \<Longrightarrow> \<exists>cols. q' = q\<lparr>q_columns := q_columns q @ cols\<rparr>"
  unfolding selectColumn_def addColumnTo_def
  by (auto split: if_splits dest: addComputedColumn_frame intro: exI[of _ "[]"])

lemma selectColumns_frame:
  assumes "forEach (selectColumn E t sel g) ps q = Inr q'"
  shows "\<exists>cols. q' = q\<lparr>q_columns := q_columns q @ cols\<rparr>"
  using assms
  by (rule forEach_rel[where R="\<lambda>a b. \<exists>cs. b = a\<lparr>q_columns := q_columns a @ cs\<rparr>", rotated 3])
     (auto intro: selectColumn_frame columns_refl columns_trans)

lemma groupEntry_frame:
  "groupEntry E t g n q = Inr q' \<Longrightarrow> \<exists>gs. q' = q\<lparr>q_groupBy := q_groupBy q @ gs\<rparr>"
  unfolding groupEntry_def groupBy_def by (auto split: option.splits)

lemma groups_refl: "\<exists>gs. (q::query) = q\<lparr>q_groupBy := q_groupBy q @ gs\<rparr>"
  by (rule exI[of _ "[]"]) simp

lemma groups_trans:
  "\<exists>cs. (b::query) = a\<lparr>q_groupBy := q_groupBy a @ cs\<rparr> \<Longrightarrow> \<exists>cs. c = b\<lparr>q_groupBy := q_groupBy b @ cs\<rparr> \<Longrightarrow>
   \<exists>cs. c = a\<lparr>q_groupBy := q_groupBy a @ cs\<rparr>"
proof -
  assume "\<exists>cs. b = a\<lparr>q_groupBy := q_groupBy a @ cs\<rparr>" "\<exists>cs. c = b\<lparr>q_groupBy := q_groupBy b @ cs\<rparr>"
  then obtain c1 c2 where "b = a\<lparr>q_groupBy := q_groupBy a @ c1\<rparr>" "c = b\<lparr>q_groupBy := q_groupBy b @ c2\<rparr>" by blast
  then have "c = a\<lparr>q_groupBy := q_groupBy a @ (c1 @ c2)\<rparr>" by simp
  then show ?thesis by blast
qed

lemma groupLoop_frame:
  assumes "forEach (groupEntry E t g) ns q = Inr q'"
  shows "\<exists>gs. q' = q\<lparr>q_groupBy := q_groupBy q @ gs\<rparr>"
  using assms
  by (rule forEach_rel[where R="\<lambda>a b. \<exists>cs. b = a\<lparr>q_groupBy := q_groupBy a @ cs\<rparr>", rotated 3])
     (auto intro: groupEntry_frame groups_refl groups_trans)

lemma addGroupClause_frame:
  assumes "addGroupClause E t q g = Inr q'"
  shows "\<exists>gs. q' = q\<lparr>q_groupBy := q_groupBy q @ gs\<rparr>"
proof (cases "truthyGroup g")
  case False
  with assms have "q' = q" by (simp add: addGroupClause_def)
  then show ?thesis using groups_refl by simp
next
  case True
  with assms have "(\<exists>s. forEach (groupEntry E t s) [s] q = Inr q') \<or>
      (\<exists>ns. forEach (groupEntry E t (join '','' ns)) ns q = Inr q')"
    by (auto simp: addGroupClause_def split: option.splits groupArg.splits)
  then show ?thesis using groupLoop_frame by blast
qed

lemma extends_refl: "extends q q"
  unfolding extends_def by (intro exI[of _ "[]"]) simp

lemma extends_trans: "extends a b \<Longrightarrow> extends b c \<Longrightarrow> extends a c"
proof -
  assume "extends a b" "extends b c"
  then obtain c1 j1 c2 j2 where "b = a\<lparr>q_columns := q_columns a @ c1, q_joins := q_joins a @ j1\<rparr>"
    "c = b\<lparr>q_columns := q_columns b @ c2, q_joins := q_joins b @ j2\<rparr>"
    unfolding extends_def by blast
  then have "c = a\<lparr>q_columns := q_columns a @ (c1 @ c2), q_joins := q_joins a @ (j1 @ j2)\<rparr>" by simp
  then show ?thesis unfolding extends_def by blast
qed

lemma extends_columns: "\<exists>cols. q' = q\<lparr>q_columns := q_columns q @ cols\<rparr> \<Longrightarrow> extends q q'"
proof -
  assume "\<exists>cols. q' = q\<lparr>q_columns := q_columns q @ cols\<rparr>"
  then obtain cols where "q' = q\<lparr>q_columns := q_columns q @ cols, q_joins := q_joins q @ []\<rparr>" by auto
  then show ?thesis unfolding extends_def by blast
qed

lemma addJoinStatement_joins:
  assumes "addJoinStatement E t q as = Inr q'"
  shows "\<exists>js. q' = q\<lparr>q_joins := q_joins q @ js\<rparr>"
proof (cases "isManyToMany (last as)")
  case True
  with addJoinStatement_cases[OF assms] have "addManyToManyJoin E t q as (last as) = Inr q'" by simp
  from addManyToManyJoin_shape[OF this] show ?thesis by (auto simp: addJoin_def)
next
  case False
  with addJoinStatement_cases[OF assms] have "addDirectJoin E t q as (last as) = Inr q'" by simp
  from addDirectJoin_shape[OF this] show ?thesis by (auto simp: addJoin_def intro: exI[of _ "[]"])
qed

lemma extends_joins: "\<exists>js. q' = q\<lparr>q_joins := q_joins q @ js\<rparr> \<Longrightarrow> extends q q'"
proof -
  assume "\<exists>js. q' = q\<lparr>q_joins := q_joins q @ js\<rparr>"
  then obtain js where "q' = q\<lparr>q_columns := q_columns q @ [], q_joins := q_joins q @ js\<rparr>" by auto
  then show ?thesis unfolding extends_def by blast
qed

lemma associationColumn_frame:
  "associationColumn E t as sel p q = Inr q' \<Longrightarrow> \<exists>cols. q' = q\<lparr>q_columns := q_columns q @ cols\<rparr>"
  unfolding associationColumn_def addColumnTo_def
  by (auto simp: Let_def split: if_splits dest: addComputedColumn_frame intro: exI[of _ "[]"])

lemma addSelectColumnsForAssociation_frame:
  assumes "addSelectColumnsForAssociation E t q as sel = Inr q'"
  shows "\<exists>cols. q' = q\<lparr>q_columns := q_columns q @ cols\<rparr>"
proof -
  from assms obtain m :: model where "forEach (associationColumn E t as sel) (modelProperties m) q = Inr q'"
    by (auto simp: addSelectColumnsForAssociation_def split: if_splits option.splits)
  then show ?thesis
    by (rule forEach_rel[where R="\<lambda>a b. \<exists>cs. b = a\<lparr>q_columns := q_columns a @ cs\<rparr>", rotated 3])
       (auto intro: associationColumn_frame columns_refl columns_trans)
qed

lemma addAssociation_extends:
  "addAssociation E t q as sel d = Inr q' \<Longrightarrow> extends q q'"
proof (induction E t q as sel d arbitrary: q' rule: addAssociation.induct)
  case (1 E t query as select autoFetchDepth)
  from "1.prems" obtain q1 q2 where q1: "addSelectColumnsForAssociation E t query as select = Inr q1"
    and q2: "addJoinStatement E t q1 as = Inr q2"
    by (auto simp: addAssociation.simps[of E t query as] split: sum.splits)
  have e1: "extends query q1"
    by (rule extends_columns[OF addSelectColumnsForAssociation_frame[OF q1]])
  have e2: "extends q1 q2" by (rule extends_joins[OF addJoinStatement_joins[OF q2]])
  have e3: "extends q2 q'"
  proof (cases "belowDepth (length as) autoFetchDepth")
    case False
    with "1.prems" q1 q2 have "q' = q2"
      by (simp add: addAssociation.simps[of E t query as])
    then show ?thesis by (simp add: extends_refl)
  next
    case True
    show ?thesis
    proof (cases "getAssociatedModel E (last as)")
      case None
      with True "1.prems" q1 q2 have "q' = q2"
        by (simp add: addAssociation.simps[of E t query as])
      then show ?thesis by (simp add: extends_refl)
    next
      case (Some am)
      let ?f = "\<lambda>childAssociation q.
                           if fetchesChild (last as) childAssociation
                           then addAssociation E t q (as @ [childAssociation]) select autoFetchDepth
                           else Inr q"
      from Some True "1.prems" q1 q2 have loop: "forEach ?f (modelAssociations am) q2 = Inr q'"
        by (simp add: addAssociation.simps[of E t query as])
      show ?thesis
      proof (rule forEach_rel[of "modelAssociations am" ?f extends, OF _ _ _ loop])
        fix x s s' assume x: "x \<in> set (modelAssociations am)" and r: "?f x s = Inr s'"
        show "extends s s'"
        proof (cases "fetchesChild (last as) x")
          case True
          with r have "addAssociation E t s (as @ [x]) select autoFetchDepth = Inr s'" by simp
          from "1.IH"[OF q1 q2 \<open>belowDepth (length as) autoFetchDepth\<close> Some x True this]
          show ?thesis .
        next
          case False
          with r show ?thesis by (simp add: extends_refl)
        qed
      qed (auto intro: extends_refl extends_trans)
    qed
  qed
  from e1 e2 e3 show ?case by (blast intro: extends_trans)
qed

lemma selectAssociation_split:
  "forEach (selectAssociation E t whereMap select fa d) as (Some w, s) = Inr (wq', s') \<Longrightarrow>
   \<exists>w'. wq' = Some w' \<and>
     forEach (\<lambda>a q. addJoinStatement E t q [a])
       (filter (\<lambda>a. \<not> fetches a fa \<and> namedInWhere whereMap a) as) w = Inr w' \<and>
     forEach (\<lambda>a q. addAssociation E t q [a] select d) (filter (\<lambda>a. fetches a fa) as) s = Inr s'"
proof (induction as arbitrary: w s)
  case Nil
  then show ?case by simp
next
  case (Cons a as)
  from Cons.prems obtain st1 where st1: "selectAssociation E t whereMap select fa d a (Some w, s) = Inr st1"
    and rest: "forEach (selectAssociation E t whereMap select fa d) as st1 = Inr (wq', s')"
    by (auto split: sum.splits)
  show ?case
  proof (cases "fetches a fa")
    case True
    with st1 obtain s1 where s1: "addAssociation E t s [a] select d = Inr s1" and "st1 = (Some w, s1)"
      by (auto simp: selectAssociation_def Let_def split: sum.splits)
    with rest Cons.IH[of w s1] True show ?thesis by simp
  next
    case False
    show ?thesis
    proof (cases "namedInWhere whereMap a")
      case True
      with False st1 obtain w1 where w1: "addJoinStatement E t w [a] = Inr w1" and "st1 = (Some w1, s)"
        by (auto simp: selectAssociation_def Let_def namedInWhere_def
            split: sum.splits option.splits if_splits)
      with rest Cons.IH[of w1 s] True False show ?thesis by simp
    next
      case nf: False
      with False st1 have "st1 = (Some w, s)"
        by (auto simp: selectAssociation_def Let_def namedInWhere_def
            split: sum.splits option.splits if_splits)
      with rest Cons.IH[of w s] nf False show ?thesis by simp
    qed
  qed
qed

lemma selectAssociation_step_extends:
  assumes "selectAssociation E t whereMap select fa d a (wq, s) = Inr (wq', s')"
  shows "extends s s' \<and> (wq = None \<longleftrightarrow> wq' = None)"
proof (cases "fetches a fa")
  case True
  with assms have "(case addAssociation E t s [a] select d of Inl e \<Rightarrow> Inl e | Inr q \<Rightarrow> Inr (wq, q)) =
      Inr (wq', s')"
    by (simp add: selectAssociation_def)
  then have "addAssociation E t s [a] select d = Inr s' \<and> wq' = wq"
    by (cases "addAssociation E t s [a] select d") simp_all
  then show ?thesis using addAssociation_extends[of E t s "[a]" select d s'] by simp
next
  case False
  show ?thesis
  proof (cases whereMap)
    case None
    with False assms show ?thesis by (simp add: selectAssociation_def)
  next
    case (Some m)
    show ?thesis
    proof (cases "truthy_member m (name a)")
      case nt: False
      with Some False assms show ?thesis by (simp add: selectAssociation_def extends_refl)
    next
      case True
      show ?thesis
      proof (cases wq)
        case None
        with True Some False assms have
          "(case addJoinStatement E t s [a] of Inl e \<Rightarrow> Inl e | Inr q \<Rightarrow> Inr (None, q)) = Inr (wq', s')"
          by (simp add: selectAssociation_def)
        then have "addJoinStatement E t s [a] = Inr s' \<and> wq' = None"
          by (cases "addJoinStatement E t s [a]") simp_all
        with None show ?thesis using extends_joins[OF addJoinStatement_joins, of E t s "[a]" s'] by simp
      next
        case (Some w)
        with True \<open>whereMap = Some m\<close> False assms have
          "(case addJoinStatement E t w [a] of Inl e \<Rightarrow> Inl e | Inr w' \<Rightarrow> Inr (Some w', s)) = Inr (wq', s')"
          by (simp add: selectAssociation_def)
        then have "s' = s \<and> wq' \<noteq> None"
          by (cases "addJoinStatement E t w [a]") auto
        with Some show ?thesis by (simp add: extends_refl)
      qed
    qed
  qed
qed

lemma selectAssociations_extend:
  assumes "forEach (selectAssociation E t whereMap select fa d) as (wq, s) = Inr (wq', s')"
  shows "extends s s' \<and> (wq = None \<longleftrightarrow> wq' = None)"
proof -
  define R :: "query option \<times> query \<Rightarrow> query option \<times> query \<Rightarrow> bool"
    where "R = (\<lambda>a b. extends (snd a) (snd b) \<and> (fst a = None \<longleftrightarrow> fst b = None))"
  have "R (wq, s) (wq', s')"
  proof (rule forEach_rel[of as "selectAssociation E t whereMap select fa d" R, OF _ _ _ assms])
    fix x st st' assume r: "selectAssociation E t whereMap select fa d x st = Inr st'"
    obtain a1 b1 where st: "st = (a1, b1)" by (cases st)
    obtain a2 b2 where st': "st' = (a2, b2)" by (cases st')
    from selectAssociation_step_extends[OF r[unfolded st st']]
    show "R st st'" unfolding R_def st st' fst_conv snd_conv .
  next
    fix st show "R st st" unfolding R_def by (simp add: extends_refl)
  next
    fix a b c assume ab: "R a b" and bc: "R b c"
    have 1: "extends (snd a) (snd b)" and 2: "(fst a = None) = (fst b = None)"
      using ab unfolding R_def by (rule conjunct1, rule conjunct2)
    have 3: "extends (snd b) (snd c)" and 4: "(fst b = None) = (fst c = None)"
      using bc unfolding R_def by (rule conjunct1, rule conjunct2)
    have "extends (snd a) (snd c)" using 1 3 by (rule extends_trans)
    moreover have "(fst a = None) = (fst c = None)" using 2 4 by (rule trans)
    ultimately show "R a c" unfolding R_def by (rule conjI)
  qed
  then show ?thesis by (simp add: R_def)
qed

lemma sum_bindE [consumes 1, case_names bind]:
  assumes "(case m of Inl e \<Rightarrow> Inl e | Inr x \<Rightarrow> f x) = Inr y"
  obtains x where "m = Inr x" "f x = Inr y"
  using assms by (cases m) auto

lemma select_steps:
  assumes "createSelectStatement E t whereMap limit skip sortArg groupArg select fa d = Inr stmt"
  shows "\<exists>wq0 s1 wq1 s2 s3 s4.
    (if truthyNumber limit \<or> truthyNumber skip
     then \<exists>w. sortColumns E t sortArg ((knex_from (tname t))\<lparr>q_columns := [Column (tname t @ ''.*'')]\<rparr>) = Inr w \<and>
              wq0 = Some w
     else wq0 = None) \<and>
    forEach (selectColumn E t select groupArg) (modelProperties (tmodel t)) (knex_from (tname t)) = Inr s1 \<and>
    forEach (selectAssociation E t whereMap select fa d) (modelAssociations (tmodel t)) (wq0, s1) =
      Inr (wq1, s2) \<and>
    addSortClause E t s2 (effectiveSort E t sortArg groupArg) = Inr s3 \<and>
    addGroupClause E t s3 groupArg = Inr s4 \<and>
    (case wq1 of
       Some w \<Rightarrow> \<exists>w'. finishWithQuery E t w whereMap limit skip (effectiveSort E t sortArg groupArg) groupArg =
                         Inr w' \<and> stmt = With (tname t) w' s4
     | None \<Rightarrow> \<exists>q. (case whereMap of None \<Rightarrow> Inr s4 | Some m \<Rightarrow> addWhereClause E t s4 m) = Inr q \<and>
                    stmt = Plain (addOffsetClause (addLimitClause q limit) skip))"
proof -
  note d0 = assms[unfolded createSelectStatement_def]
  from d0 show ?thesis
  proof (cases rule: sum_bindE)
    case (bind wq0)
    have a: "(if truthyNumber limit \<or> truthyNumber skip
       then \<exists>w. sortColumns E t sortArg ((knex_from (tname t))\<lparr>q_columns := [Column (tname t @ ''.*'')]\<rparr>) = Inr w \<and>
                wq0 = Some w
       else wq0 = None)"
      using bind(1) by (auto split: if_splits sum.splits)
    from bind(2) show ?thesis
    proof (cases rule: sum_bindE)
      case (bind s1)
      note b = bind(1)
      from bind(2) show ?thesis
      proof (cases rule: sum_bindE)
        case (bind st)
        obtain wq1 s2 where st: "st = (wq1, s2)" by (cases st)
        note c = bind(1)[unfolded st]
        note d4 = bind(2)[unfolded st prod.case Let_def, folded effectiveSort_def]
        from d4 show ?thesis
        proof (cases rule: sum_bindE)
          case (bind s3)
          note e = bind(1)
          from bind(2) show ?thesis
          proof (cases rule: sum_bindE)
            case (bind s4)
            note f = bind(1)
            have g: "(case wq1 of
                 Some w \<Rightarrow> \<exists>w'. finishWithQuery E t w whereMap limit skip (effectiveSort E t sortArg groupArg) groupArg =
                                   Inr w' \<and> stmt = With (tname t) w' s4
               | None \<Rightarrow> \<exists>q. (case whereMap of None \<Rightarrow> Inr s4 | Some m \<Rightarrow> addWhereClause E t s4 m) = Inr q \<and>
                              stmt = Plain (addOffsetClause (addLimitClause q limit) skip))"
            proof (cases wq1)
              case None
              from bind(2)[unfolded None option.case] show ?thesis
                unfolding None option.case by (cases rule: sum_bindE) auto
            next
              case (Some w)
              from bind(2)[unfolded Some option.case] show ?thesis
                unfolding Some option.case by (cases rule: sum_bindE) auto
            qed
            show ?thesis
              apply (rule exI[of _ wq0], rule exI[of _ s1], rule exI[of _ wq1], rule exI[of _ s2],
                     rule exI[of _ s3], rule exI[of _ s4])
              apply (intro conjI)
              apply (rule a, rule b, rule c, rule e, rule f, rule g)
              done
          qed
        qed
      qed
    qed
  qed
qed

section \<open>The anatomy of a SELECT statement\<close>

lemma effectiveSort_not_implicit: "\<not> implicitSort E t (effectiveSort E t sortArg groupArg) groupArg"
  by (simp add: effectiveSort_def implicitSort_def truthySort_def)

lemma finishWithQuery_steps:
  assumes "finishWithQuery E t w whereMap limit skip (effectiveSort E t sortArg groupArg) groupArg = Inr w'"
  shows "\<exists>w1 w2. addSortClause E t w (effectiveSort E t sortArg groupArg) = Inr w1 \<and>
     (case whereMap of None \<Rightarrow> Inr w1 | Some m \<Rightarrow> addWhereClause E t w1 m) = Inr w2 \<and>
     w' = addOffsetClause (addLimitClause w2 limit) skip"
proof -
  note d0 = assms[unfolded finishWithQuery_def]
  from d0 show ?thesis
  proof (cases rule: sum_bindE)
    case (bind w1)
    from bind(2) show ?thesis
    proof (cases rule: sum_bindE)
      case (bind w2)
      from bind(2) have "w' = addOffsetClause (addLimitClause w2 limit) skip"
        by (simp add: Let_def effectiveSort_not_implicit)
      with \<open>addSortClause E t w (effectiveSort E t sortArg groupArg) = Inr w1\<close> bind(1)
      show ?thesis by blast
    qed
  qed
qed

lemma whereOption_appends:
  "(case whereMap of None \<Rightarrow> Inr q | Some m \<Rightarrow> addWhereClause E t q m) = Inr q' \<Longrightarrow>
   \<exists>cs. q' = q\<lparr>q_wheres := q_wheres q @ cs\<rparr>"
  by (cases whereMap) (auto dest: addWhereClause_appends intro: wheres_refl)

lemma extends_fields:
  assumes "extends q q'"
  shows "q_orderBy q' = q_orderBy q" "q_wheres q' = q_wheres q" "q_from q' = q_from q"
    "q_limit q' = q_limit q" "q_offset q' = q_offset q" "q_groupBy q' = q_groupBy q"
  using assms unfolding extends_def by auto

lemma joinLoop_joins:
  assumes "forEach (\<lambda>a q. addJoinStatement E t q [a]) as q = Inr q'"
  shows "\<exists>js. q' = q\<lparr>q_joins := q_joins q @ js\<rparr>"
proof -
  define R :: "query \<Rightarrow> query \<Rightarrow> bool" where "R = (\<lambda>a b. \<exists>js. b = a\<lparr>q_joins := q_joins a @ js\<rparr>)"
  have "R q q'"
  proof (rule forEach_rel[of as "\<lambda>a q. addJoinStatement E t q [a]" R, OF _ _ _ assms])
    fix x s s' assume "addJoinStatement E t s [x] = Inr s'"
    then show "R s s'" unfolding R_def by (rule addJoinStatement_joins)
  next
    fix s show "R s s" unfolding R_def by (rule exI[of _ "[]"]) simp
  next
    fix a b c assume "R a b" "R b c"
    then obtain j1 j2 where "b = a\<lparr>q_joins := q_joins a @ j1\<rparr>" "c = b\<lparr>q_joins := q_joins b @ j2\<rparr>"
      unfolding R_def by (elim exE)
    then have "c = a\<lparr>q_joins := q_joins a @ (j1 @ j2)\<rparr>" by simp
    then show "R a c" unfolding R_def by (rule exI)
  qed
  then show ?thesis by (simp add: R_def)
qed

lemma select_anatomy:
  assumes "createSelectStatement E t whereMap limit skip sortArg groupArg select fa d = Inr stmt"
  shows "\<exists>s1 s2 s3.
    forEach (selectColumn E t select groupArg) (modelProperties (tmodel t)) (knex_from (tname t)) = Inr s1 \<and>
    q_joins s1 = [] \<and> extends s1 s2 \<and> q_orderBy s2 = [] \<and>
    addSortClause E t s2 (effectiveSort E t sortArg groupArg) = Inr s3 \<and>
    q_joins (outer stmt) = q_joins s2 \<and> q_orderBy (outer stmt) = q_orderBy s3 \<and>
    q_from (outer stmt) = tname t \<and> q_limit (outer stmt) = None \<and> q_offset (outer stmt) = None \<and>
    (modelAssociations (tmodel t) = [] \<longrightarrow> s2 = s1) \<and>
    (if truthyNumber limit \<or> truthyNumber skip
     then stmt = With (tname t) (inner stmt) (outer stmt) \<and> q_wheres (outer stmt) = [] \<and>
       forEach (\<lambda>a q. addAssociation E t q [a] select d)
         (filter (\<lambda>a. fetches a fa) (modelAssociations (tmodel t))) s1 = Inr s2 \<and>
       (\<exists>w0 wj ws ww.
          q_joins w0 = [] \<and> q_orderBy w0 = [] \<and> q_wheres w0 = [] \<and> q_from w0 = tname t \<and>
          q_limit w0 = None \<and> q_offset w0 = None \<and>
          forEach (\<lambda>a q. addJoinStatement E t q [a])
            (filter (\<lambda>a. \<not> fetches a fa \<and> namedInWhere whereMap a) (modelAssociations (tmodel t))) w0 =
            Inr wj \<and>
          addSortClause E t wj (effectiveSort E t sortArg groupArg) = Inr ws \<and>
          (case whereMap of None \<Rightarrow> Inr ws | Some m \<Rightarrow> addWhereClause E t ws m) = Inr ww \<and>
          inner stmt = addOffsetClause (addLimitClause ww limit) skip)
     else stmt = Plain (outer stmt))"
proof -
  from select_steps[OF assms] obtain wq0 s1 wq1 s2 s3 s4 where
    a: "(if truthyNumber limit \<or> truthyNumber skip
     then \<exists>w. sortColumns E t sortArg ((knex_from (tname t))\<lparr>q_columns := [Column (tname t @ ''.*'')]\<rparr>) = Inr w \<and>
              wq0 = Some w
     else wq0 = None)"
    and b: "forEach (selectColumn E t select groupArg) (modelProperties (tmodel t)) (knex_from (tname t)) = Inr s1"
    and c: "forEach (selectAssociation E t whereMap select fa d) (modelAssociations (tmodel t)) (wq0, s1) =
      Inr (wq1, s2)"
    and e: "addSortClause E t s2 (effectiveSort E t sortArg groupArg) = Inr s3"
    and f: "addGroupClause E t s3 groupArg = Inr s4"
    and g: "(case wq1 of
       Some w \<Rightarrow> \<exists>w'. finishWithQuery E t w whereMap limit skip (effectiveSort E t sortArg groupArg) groupArg =
                         Inr w' \<and> stmt = With (tname t) w' s4
     | None \<Rightarrow> \<exists>q. (case whereMap of None \<Rightarrow> Inr s4 | Some m \<Rightarrow> addWhereClause E t s4 m) = Inr q \<and>
                    stmt = Plain (addOffsetClause (addLimitClause q limit) skip))"
    by (elim exE conjE)
  from selectColumns_frame[OF b] obtain cols where s1: "s1 = (knex_from (tname t))\<lparr>q_columns := q_columns (knex_from (tname t)) @ cols\<rparr>"
    by (elim exE)
  have s1f: "q_joins s1 = []" "q_orderBy s1 = []" "q_wheres s1 = []" "q_from s1 = tname t"
    "q_limit s1 = None" "q_offset s1 = None"
    unfolding s1 by (simp_all add: knex_from_def)
  from selectAssociations_extend[OF c] have ext: "extends s1 s2" and none: "(wq0 = None) = (wq1 = None)"
    by (rule conjunct1, rule conjunct2)
  note s2f = extends_fields[OF ext, unfolded s1f]
  from addSortClause_appends[OF e] obtain os where s3: "s3 = s2\<lparr>q_orderBy := q_orderBy s2 @ os\<rparr>"
    by (elim exE)
  from addGroupClause_frame[OF f] obtain gs where s4: "s4 = s3\<lparr>q_groupBy := q_groupBy s3 @ gs\<rparr>"
    by (elim exE)
  have s4f: "q_joins s4 = q_joins s2" "q_orderBy s4 = q_orderBy s3" "q_from s4 = tname t"
    "q_limit s4 = None" "q_offset s4 = None" "q_wheres s4 = []"
    unfolding s4 s3 using s2f by simp_all
  have empty: "modelAssociations (tmodel t) = [] \<longrightarrow> s2 = s1"
    using c by auto
  show ?thesis
  proof (cases "truthyNumber limit \<or> truthyNumber skip")
    case False
    with a have "wq0 = None" by simp
    with none have "wq1 = None" by simp
    with g obtain q where q: "(case whereMap of None \<Rightarrow> Inr s4 | Some m \<Rightarrow> addWhereClause E t s4 m) = Inr q"
      and stmt: "stmt = Plain (addOffsetClause (addLimitClause q limit) skip)" by auto
    from whereOption_appends[OF q] obtain cs where qq: "q = s4\<lparr>q_wheres := q_wheres s4 @ cs\<rparr>"
      by (elim exE)
    from False have np: "\<not> positive limit" "\<not> positive skip"
      by (auto simp: truthyNumber_def positive_def split: option.splits)
    have o: "q_joins (outer stmt) = q_joins s2" "q_orderBy (outer stmt) = q_orderBy s3"
      "q_from (outer stmt) = tname t" "q_limit (outer stmt) = None" "q_offset (outer stmt) = None"
      "stmt = Plain (outer stmt)"
      unfolding stmt qq using s4f np by (simp_all add: addLimitClause_def addOffsetClause_def)
    from False b s1f(1) ext s2f(1) e o empty show ?thesis by auto
  next
    case True
    with a obtain w0 where w0: "sortColumns E t sortArg ((knex_from (tname t))\<lparr>q_columns := [Column (tname t @ ''.*'')]\<rparr>) = Inr w0"
      and wq0: "wq0 = Some w0" by auto
    from sortColumns_frame[OF w0] obtain wc where
      w0q: "w0 = ((knex_from (tname t))\<lparr>q_columns := [Column (tname t @ ''.*'')]\<rparr>)\<lparr>q_columns :=
              q_columns ((knex_from (tname t))\<lparr>q_columns := [Column (tname t @ ''.*'')]\<rparr>) @ wc\<rparr>"
      by (elim exE)
    have w0f: "q_joins w0 = []" "q_orderBy w0 = []" "q_wheres w0 = []" "q_from w0 = tname t"
      "q_limit w0 = None" "q_offset w0 = None"
      unfolding w0q by (simp_all add: knex_from_def)
    from selectAssociation_split[OF c[unfolded wq0]] obtain wj where wq1: "wq1 = Some wj"
      and wj: "forEach (\<lambda>a q. addJoinStatement E t q [a])
            (filter (\<lambda>a. \<not> fetches a fa \<and> namedInWhere whereMap a) (modelAssociations (tmodel t))) w0 = Inr wj"
      and fs: "forEach (\<lambda>a q. addAssociation E t q [a] select d)
         (filter (\<lambda>a. fetches a fa) (modelAssociations (tmodel t))) s1 = Inr s2"
      by (elim exE conjE)
    from g[unfolded wq1 option.case] obtain w' where
      fin: "finishWithQuery E t wj whereMap limit skip (effectiveSort E t sortArg groupArg) groupArg = Inr w'"
      and stmt: "stmt = With (tname t) w' s4" by (elim exE conjE)
    from finishWithQuery_steps[OF fin] obtain ws ww where
      ws: "addSortClause E t wj (effectiveSort E t sortArg groupArg) = Inr ws"
      and ww: "(case whereMap of None \<Rightarrow> Inr ws | Some m \<Rightarrow> addWhereClause E t ws m) = Inr ww"
      and w': "w' = addOffsetClause (addLimitClause ww limit) skip"
      by (elim exE conjE)
    have o: "q_joins (outer stmt) = q_joins s2" "q_orderBy (outer stmt) = q_orderBy s3"
      "q_from (outer stmt) = tname t" "q_limit (outer stmt) = None" "q_offset (outer stmt) = None"
      "stmt = With (tname t) (inner stmt) (outer stmt)" "q_wheres (outer stmt) = []"
      unfolding stmt using s4f by simp_all
    have i: "inner stmt = addOffsetClause (addLimitClause ww limit) skip"
      unfolding stmt w' by simp
    have inner: "\<exists>w0 wj ws ww.
          q_joins w0 = [] \<and> q_orderBy w0 = [] \<and> q_wheres w0 = [] \<and> q_from w0 = tname t \<and>
          q_limit w0 = None \<and> q_offset w0 = None \<and>
          forEach (\<lambda>a q. addJoinStatement E t q [a])
            (filter (\<lambda>a. \<not> fetches a fa \<and> namedInWhere whereMap a) (modelAssociations (tmodel t))) w0 =
            Inr wj \<and>
          addSortClause E t wj (effectiveSort E t sortArg groupArg) = Inr ws \<and>
          (case whereMap of None \<Rightarrow> Inr ws | Some m \<Rightarrow> addWhereClause E t ws m) = Inr ww \<and>
          inner stmt = addOffsetClause (addLimitClause ww limit) skip"
      apply (rule exI[of _ w0], rule exI[of _ wj], rule exI[of _ ws], rule exI[of _ ww])
      apply (intro conjI)
      apply (rule w0f wj ws ww i)+
      done
    show ?thesis
      apply (rule exI[of _ s1], rule exI[of _ s2], rule exI[of _ s3])
      apply (simp only: True if_True)
      apply (intro conjI)
      apply (rule b s1f(1) ext s2f(1) e o empty fs inner)+
      done
  qed
qed

lemma implicit_order:
  assumes "addSortClause E t q (Some (SortMap [(''id'', SortText ''asc'')])) = Inr q'"
    "getProperty E t ''id'' = Some idp"
  shows "q_orderBy q' = q_orderBy q @
           [(if isVirtual idp then columnName idp else tname t @ ''.'' @ columnName idp, ''ASC'')]"
proof -
  have u: "toUpperCase ''asc'' = ''ASC''" by (simp add: toUpperCase_def)
  from assms show ?thesis
    by (auto simp: addSortClause_def truthySort_def sortEntry_def u orderBy_def split: if_splits)
qed

text \<open>
  C4, as the claim states it, fails in its second half: the model \<open>User\<close> declares
  associations, the call fetches none of them and names none in its where map, so the
  statement joins nothing; yet the implicit sort by id is added.
\<close>

theorem implicit_sort_without_join:
  "\<not> isl (createSelectStatement exampleEnv users (Some [(''name'', VStr ''Alice'')]) None None None None
            None None (Some 5)) \<and>
   q_joins (outer (projr (createSelectStatement exampleEnv users (Some [(''name'', VStr ''Alice'')]) None None
            None None None None (Some 5)))) = [] \<and>
   q_orderBy (outer (projr (createSelectStatement exampleEnv users (Some [(''name'', VStr ''Alice'')]) None None
            None None None None (Some 5)))) = [(''users.id'', ''ASC'')]"
  by code_simp

text \<open>
  C4 (amended): whenever \<open>createSelectStatement\<close> returns a statement: if the model
  declares at least one association (joined into the statement or not), the sort
  argument is absent or falsy, the group argument is absent or falsy and the model has
  an id property, the outer query is ordered by the id column, ascending, and by nothing
  else; otherwise its order is the one \<open>addSortClause\<close> builds from the sort argument,
  which is empty when there is none. A statement with a join, in the outer or in the
  inner query, is on a model that declares an association.
\<close>

theorem implicit_sort_by_id:
  assumes "createSelectStatement E t whereMap limit skip sortArg groupArg select fa d = Inr stmt"
  shows "(getAssociations t \<noteq> [] \<and> \<not> truthySort sortArg \<and> getProperty E t ''id'' \<noteq> None \<and>
      \<not> truthyGroup groupArg \<longrightarrow>
        (\<exists>idp. getProperty E t ''id'' = Some idp \<and>
           q_orderBy (outer stmt) =
             [(if isVirtual idp then columnName idp else tname t @ ''.'' @ columnName idp, ''ASC'')])) \<and>
     (\<not> (getAssociations t \<noteq> [] \<and> \<not> truthySort sortArg \<and> getProperty E t ''id'' \<noteq> None \<and>
         \<not> truthyGroup groupArg) \<longrightarrow>
        (\<exists>q0 q1. q_orderBy q0 = [] \<and> addSortClause E t q0 sortArg = Inr q1 \<and>
           q_orderBy (outer stmt) = q_orderBy q1) \<and>
        (\<not> truthySort sortArg \<longrightarrow> q_orderBy (outer stmt) = [])) \<and>
     (q_joins (outer stmt) \<noteq> [] \<longrightarrow> getAssociations t \<noteq> []) \<and>
     (stmt = With (tname t) (inner stmt) (outer stmt) \<longrightarrow> q_joins (inner stmt) \<noteq> [] \<longrightarrow>
        getAssociations t \<noteq> [])"
proof -
  from select_anatomy[OF assms] obtain s1 s2 s3 where
    j1: "q_joins s1 = []" and o2: "q_orderBy s2 = []"
    and e: "addSortClause E t s2 (effectiveSort E t sortArg groupArg) = Inr s3"
    and oj: "q_joins (outer stmt) = q_joins s2" and oo: "q_orderBy (outer stmt) = q_orderBy s3"
    and empty: "modelAssociations (tmodel t) = [] \<longrightarrow> s2 = s1"
    and cte: "(if truthyNumber limit \<or> truthyNumber skip
     then stmt = With (tname t) (inner stmt) (outer stmt) \<and> q_wheres (outer stmt) = [] \<and>
       forEach (\<lambda>a q. addAssociation E t q [a] select d)
         (filter (\<lambda>a. fetches a fa) (modelAssociations (tmodel t))) s1 = Inr s2 \<and>
       (\<exists>w0 wj ws ww.
          q_joins w0 = [] \<and> q_orderBy w0 = [] \<and> q_wheres w0 = [] \<and> q_from w0 = tname t \<and>
          q_limit w0 = None \<and> q_offset w0 = None \<and>
          forEach (\<lambda>a q. addJoinStatement E t q [a])
            (filter (\<lambda>a. \<not> fetches a fa \<and> namedInWhere whereMap a) (modelAssociations (tmodel t))) w0 =
            Inr wj \<and>
          addSortClause E t wj (effectiveSort E t sortArg groupArg) = Inr ws \<and>
          (case whereMap of None \<Rightarrow> Inr ws | Some m \<Rightarrow> addWhereClause E t ws m) = Inr ww \<and>
          inner stmt = addOffsetClause (addLimitClause ww limit) skip)
     else stmt = Plain (outer stmt))"
    by (elim exE conjE)
  have p1: "\<exists>idp. getProperty E t ''id'' = Some idp \<and>
           q_orderBy (outer stmt) =
             [(if isVirtual idp then columnName idp else tname t @ ''.'' @ columnName idp, ''ASC'')]"
    if c: "getAssociations t \<noteq> [] \<and> \<not> truthySort sortArg \<and> getProperty E t ''id'' \<noteq> None \<and>
      \<not> truthyGroup groupArg"
  proof -
    from c obtain idp where idp: "getProperty E t ''id'' = Some idp" by auto
    from c have "effectiveSort E t sortArg groupArg = Some (SortMap [(''id'', SortText ''asc'')])"
      by (simp add: effectiveSort_def implicitSort_def)
    with e have "addSortClause E t s2 (Some (SortMap [(''id'', SortText ''asc'')])) = Inr s3" by simp
    from implicit_order[OF this idp] o2 oo idp show ?thesis by simp
  qed
  have p2: "(\<exists>q0 q1. q_orderBy q0 = [] \<and> addSortClause E t q0 sortArg = Inr q1 \<and>
           q_orderBy (outer stmt) = q_orderBy q1) \<and>
        (\<not> truthySort sortArg \<longrightarrow> q_orderBy (outer stmt) = [])"
    if c: "\<not> (getAssociations t \<noteq> [] \<and> \<not> truthySort sortArg \<and> getProperty E t ''id'' \<noteq> None \<and>
         \<not> truthyGroup groupArg)"
  proof -
    from c have "\<not> implicitSort E t sortArg groupArg" unfolding implicitSort_def by blast
    then have "effectiveSort E t sortArg groupArg = sortArg"
      by (simp add: effectiveSort_def)
    with e have e': "addSortClause E t s2 sortArg = Inr s3" by simp
    have "\<not> truthySort sortArg \<longrightarrow> s3 = s2" using e' by (auto simp: addSortClause_def)
    with o2 oo e' show ?thesis by auto
  qed
  have p3: "q_joins (outer stmt) \<noteq> [] \<longrightarrow> getAssociations t \<noteq> []"
    using empty j1 oj by (auto simp: getAssociations_def)
  have p4: "getAssociations t \<noteq> []"
    if w: "stmt = With (tname t) (inner stmt) (outer stmt)" and j: "q_joins (inner stmt) \<noteq> []"
  proof (rule ccontr)
    assume "\<not> getAssociations t \<noteq> []"
    then have none: "modelAssociations (tmodel t) = []" by (simp add: getAssociations_def)
    have using_cte: "truthyNumber limit \<or> truthyNumber skip"
    proof (rule ccontr)
      assume "\<not> (truthyNumber limit \<or> truthyNumber skip)"
      with cte have "stmt = Plain (outer stmt)" by simp
      with w show False by (metis statement.distinct(1))
    qed
    with cte obtain w0 wj ws ww where w0: "q_joins w0 = []"
      and wj: "forEach (\<lambda>a q. addJoinStatement E t q [a])
            (filter (\<lambda>a. \<not> fetches a fa \<and> namedInWhere whereMap a) (modelAssociations (tmodel t))) w0 =
            Inr wj"
      and ws: "addSortClause E t wj (effectiveSort E t sortArg groupArg) = Inr ws"
      and ww: "(case whereMap of None \<Rightarrow> Inr ws | Some m \<Rightarrow> addWhereClause E t ws m) = Inr ww"
      and i: "inner stmt = addOffsetClause (addLimitClause ww limit) skip"
      by auto
    from wj none have "wj = w0" by simp
    moreover from addSortClause_appends[OF ws] have "q_joins ws = q_joins wj" by auto
    moreover from whereOption_appends[OF ww] have "q_joins ww = q_joins ws" by auto
    ultimately have "q_joins (inner stmt) = []"
      using w0 i by (simp add: addLimitClause_fields addOffsetClause_fields)
    with j show False by simp
  qed
  from p1 p2 p3 p4 show ?thesis by blast
qed

lemma example_fetch_posts:
  "\<not> isl (createSelectStatement exampleEnv users (Some [(''name'', VStr ''Alice'')]) (Some 10) None None None
            None (Some [''posts'']) (Some 5))"
  by code_simp

theorem implicit_sort_by_id_witness:
  "\<not> isl (createSelectStatement exampleEnv users (Some [(''name'', VStr ''Alice'')]) (Some 10) None None None
            None (Some [''posts'']) (Some 5)) \<and>
   getAssociations users \<noteq> [] \<and> \<not> truthySort None \<and> \<not> truthyGroup None \<and>
   getProperty exampleEnv users ''id'' = Some (aProperty ''User'' ''id'') \<and>
   q_joins (outer (projr (createSelectStatement exampleEnv users (Some [(''name'', VStr ''Alice'')]) (Some 10)
            None None None None (Some [''posts'']) (Some 5)))) =
     [Join LeftOuterJoin ''posts as users_posts'' ''users.id'' ''users_posts.author_id''] \<and>
   q_orderBy (outer (projr (createSelectStatement exampleEnv users (Some [(''name'', VStr ''Alice'')]) (Some 10)
            None None None None (Some [''posts'']) (Some 5)))) = [(''users.id'', ''ASC'')]"
proof -
  let ?R = "createSelectStatement exampleEnv users (Some [(''name'', VStr ''Alice'')]) (Some 10) None None None
            None (Some [''posts'']) (Some 5)"
  have eq: "?R = Inr (projr ?R)" using example_fetch_posts by simp
  have 1: "getAssociations users \<noteq> []" by code_simp
  have 2: "getProperty exampleEnv users ''id'' = Some (aProperty ''User'' ''id'')" by code_simp
  have 3: "q_joins (outer (projr ?R)) =
     [Join LeftOuterJoin ''posts as users_posts'' ''users.id'' ''users_posts.author_id'']" by code_simp
  have 4: "tname users = ''users''" by code_simp
  from implicit_sort_by_id[OF eq] 1 2 3 4 example_fetch_posts
  show ?thesis by (simp add: truthySort_def truthyGroup_def aProperty_def)
qed

text \<open>
  C1, as the claim states it, fails: with a limit, an association that is not fetched
  and has a truthy entry in the where map is joined into the inner query, which is then
  not against the base table only, and the outer query joins nothing.
\<close>

theorem where_join_goes_into_inner_query:
  "\<not> isl (createSelectStatement exampleEnv users (Some [(''posts'', VNum 3)]) (Some 10) None None None None
            None (Some 5)) \<and>
   projr (createSelectStatement exampleEnv users (Some [(''posts'', VNum 3)]) (Some 10) None None None None
            None (Some 5)) =
     With ''users''
       (inner (projr (createSelectStatement exampleEnv users (Some [(''posts'', VNum 3)]) (Some 10) None None
            None None None (Some 5))))
       (outer (projr (createSelectStatement exampleEnv users (Some [(''posts'', VNum 3)]) (Some 10) None None
            None None None (Some 5)))) \<and>
   q_joins (inner (projr (createSelectStatement exampleEnv users (Some [(''posts'', VNum 3)]) (Some 10) None None
            None None None (Some 5)))) =
     [Join LeftOuterJoin ''posts as users_posts'' ''users.id'' ''users_posts.author_id''] \<and>
   q_joins (outer (projr (createSelectStatement exampleEnv users (Some [(''posts'', VNum 3)]) (Some 10) None None
            None None None (Some 5)))) = []"
  by code_simp

text \<open>
  C1 (amended): whenever \<open>createSelectStatement\<close> returns a statement: if limit or
  skip is a number other than zero, the statement is WITH "table" AS (inner) outer, the
  expression named by the table. The inner query is from the table, has the limit and
  the offset (each when positive), the where clauses of the where map and the order of
  the sort argument (or of the implicit sort by id); it joins the associations that are
  not fetched and for which
  \<^verbatim>\<open>whereMap[association.name]\<close> is truthy (\<open>namedInWhere\<close>: a key whose value is null,
  zero, empty or false does not count, a name every object inherits does), and no
  other, so it is against the base table only when there is no such association. The
  outer query joins what \<open>addAssociation\<close> joins for the fetched associations and has
  no where clause. If neither limit nor skip is such a number, the statement is a single
  plain SELECT. In both cases the outer query is from the table and has neither limit
  nor offset.
\<close>

theorem limit_is_applied_in_cte:
  assumes "createSelectStatement E t whereMap limit skip sortArg groupArg select fa d = Inr stmt"
  shows "(if truthyNumber limit \<or> truthyNumber skip
     then stmt = With (tname t) (inner stmt) (outer stmt) \<and>
          q_from (inner stmt) = tname t \<and>
          q_limit (inner stmt) = (if positive limit then limit else None) \<and>
          q_offset (inner stmt) = (if positive skip then skip else None) \<and>
          (\<exists>q0 q1. q_wheres q0 = [] \<and>
             (case whereMap of None \<Rightarrow> Inr q0 | Some m \<Rightarrow> addWhereClause E t q0 m) = Inr q1 \<and>
             q_wheres (inner stmt) = q_wheres q1) \<and>
          (\<exists>q0 q1. q_orderBy q0 = [] \<and>
             addSortClause E t q0 (effectiveSort E t sortArg groupArg) = Inr q1 \<and>
             q_orderBy (inner stmt) = q_orderBy q1) \<and>
          (\<exists>q0 q1. q_joins q0 = [] \<and>
             forEach (\<lambda>a q. addJoinStatement E t q [a])
               (filter (\<lambda>a. \<not> fetches a fa \<and> namedInWhere whereMap a) (modelAssociations (tmodel t))) q0 =
               Inr q1 \<and>
             q_joins (inner stmt) = q_joins q1) \<and>
          ((\<forall>a\<in>set (modelAssociations (tmodel t)). fetches a fa \<or> \<not> namedInWhere whereMap a) \<longrightarrow>
             q_joins (inner stmt) = []) \<and>
          (\<exists>q0 q1. q_joins q0 = [] \<and>
             forEach (\<lambda>a q. addAssociation E t q [a] select d)
               (filter (\<lambda>a. fetches a fa) (modelAssociations (tmodel t))) q0 = Inr q1 \<and>
             q_joins (outer stmt) = q_joins q1) \<and>
          q_wheres (outer stmt) = []
     else stmt = Plain (outer stmt)) \<and>
     q_from (outer stmt) = tname t \<and> q_limit (outer stmt) = None \<and> q_offset (outer stmt) = None"
proof -
  from select_anatomy[OF assms] obtain s1 s2 s3 where
    j1: "q_joins s1 = []"
    and oj: "q_joins (outer stmt) = q_joins s2"
    and of: "q_from (outer stmt) = tname t" and ol: "q_limit (outer stmt) = None"
    and oo: "q_offset (outer stmt) = None"
    and cte: "(if truthyNumber limit \<or> truthyNumber skip
     then stmt = With (tname t) (inner stmt) (outer stmt) \<and> q_wheres (outer stmt) = [] \<and>
       forEach (\<lambda>a q. addAssociation E t q [a] select d)
         (filter (\<lambda>a. fetches a fa) (modelAssociations (tmodel t))) s1 = Inr s2 \<and>
       (\<exists>w0 wj ws ww.
          q_joins w0 = [] \<and> q_orderBy w0 = [] \<and> q_wheres w0 = [] \<and> q_from w0 = tname t \<and>
          q_limit w0 = None \<and> q_offset w0 = None \<and>
          forEach (\<lambda>a q. addJoinStatement E t q [a])
            (filter (\<lambda>a. \<not> fetches a fa \<and> namedInWhere whereMap a) (modelAssociations (tmodel t))) w0 =
            Inr wj \<and>
          addSortClause E t wj (effectiveSort E t sortArg groupArg) = Inr ws \<and>
          (case whereMap of None \<Rightarrow> Inr ws | Some m \<Rightarrow> addWhereClause E t ws m) = Inr ww \<and>
          inner stmt = addOffsetClause (addLimitClause ww limit) skip)
     else stmt = Plain (outer stmt))"
    by (elim exE conjE)
  show ?thesis
  proof (cases "truthyNumber limit \<or> truthyNumber skip")
    case False
    with cte of ol oo show ?thesis by simp
  next
    case True
    with cte obtain w0 wj ws ww where
      st: "stmt = With (tname t) (inner stmt) (outer stmt)" and ow: "q_wheres (outer stmt) = []"
      and fs: "forEach (\<lambda>a q. addAssociation E t q [a] select d)
         (filter (\<lambda>a. fetches a fa) (modelAssociations (tmodel t))) s1 = Inr s2"
      and w0: "q_joins w0 = []" "q_orderBy w0 = []" "q_wheres w0 = []" "q_from w0 = tname t"
        "q_limit w0 = None" "q_offset w0 = None"
      and wj: "forEach (\<lambda>a q. addJoinStatement E t q [a])
            (filter (\<lambda>a. \<not> fetches a fa \<and> namedInWhere whereMap a) (modelAssociations (tmodel t))) w0 =
            Inr wj"
      and ws: "addSortClause E t wj (effectiveSort E t sortArg groupArg) = Inr ws"
      and ww: "(case whereMap of None \<Rightarrow> Inr ws | Some m \<Rightarrow> addWhereClause E t ws m) = Inr ww"
      and i: "inner stmt = addOffsetClause (addLimitClause ww limit) skip"
      by auto
    from joinLoop_joins[OF wj] obtain js where wjq: "wj = w0\<lparr>q_joins := q_joins w0 @ js\<rparr>"
      by (elim exE)
    from addSortClause_appends[OF ws] obtain os where wsq: "ws = wj\<lparr>q_orderBy := q_orderBy wj @ os\<rparr>"
      by (elim exE)
    from whereOption_appends[OF ww] obtain cs where wwq: "ww = ws\<lparr>q_wheres := q_wheres ws @ cs\<rparr>"
      by (elim exE)
    have wjf: "q_orderBy wj = []" "q_wheres wj = []" unfolding wjq using w0 by simp_all
    have wsf: "q_wheres ws = []" "q_joins ws = q_joins wj" unfolding wsq using wjf by simp_all
    have inner: "q_from (inner stmt) = tname t"
      "q_limit (inner stmt) = (if positive limit then limit else None)"
      "q_offset (inner stmt) = (if positive skip then skip else None)"
      "q_wheres (inner stmt) = q_wheres ww" "q_orderBy (inner stmt) = q_orderBy ws"
      "q_joins (inner stmt) = q_joins wj"
      unfolding i wwq wsq wjq using w0
      by (simp_all add: addLimitClause_fields addOffsetClause_fields)
    have a: "\<exists>q0 q1. q_wheres q0 = [] \<and>
             (case whereMap of None \<Rightarrow> Inr q0 | Some m \<Rightarrow> addWhereClause E t q0 m) = Inr q1 \<and>
             q_wheres (inner stmt) = q_wheres q1"
      using wsf(1) ww inner(4) by blast
    have b: "\<exists>q0 q1. q_orderBy q0 = [] \<and>
             addSortClause E t q0 (effectiveSort E t sortArg groupArg) = Inr q1 \<and>
             q_orderBy (inner stmt) = q_orderBy q1"
      using wjf(1) ws inner(5) by blast
    have c: "\<exists>q0 q1. q_joins q0 = [] \<and>
             forEach (\<lambda>a q. addJoinStatement E t q [a])
               (filter (\<lambda>a. \<not> fetches a fa \<and> namedInWhere whereMap a) (modelAssociations (tmodel t))) q0 =
               Inr q1 \<and>
             q_joins (inner stmt) = q_joins q1"
      using w0(1) wj inner(6) by blast
    have e: "(\<forall>a\<in>set (modelAssociations (tmodel t)). fetches a fa \<or> \<not> namedInWhere whereMap a) \<longrightarrow>
             q_joins (inner stmt) = []"
    proof
      assume "\<forall>a\<in>set (modelAssociations (tmodel t)). fetches a fa \<or> \<not> namedInWhere whereMap a"
      then have "filter (\<lambda>a. \<not> fetches a fa \<and> namedInWhere whereMap a) (modelAssociations (tmodel t)) = []"
        by (simp add: filter_empty_conv)
      with wj have "wj = w0" by simp
      with inner(6) w0(1) show "q_joins (inner stmt) = []" by simp
    qed
    have f: "\<exists>q0 q1. q_joins q0 = [] \<and>
             forEach (\<lambda>a q. addAssociation E t q [a] select d)
               (filter (\<lambda>a. fetches a fa) (modelAssociations (tmodel t))) q0 = Inr q1 \<and>
             q_joins (outer stmt) = q_joins q1"
      using j1 fs oj by blast
    show ?thesis
      apply (simp only: True if_True)
      apply (intro conjI)
      apply (rule st inner(1) inner(2) inner(3) a b c e f ow of ol oo)+
      done
  qed
qed

theorem limit_is_applied_in_cte_witness:
  "\<not> isl (createSelectStatement exampleEnv users (Some [(''name'', VStr ''Alice'')]) (Some 10) None None None
            None (Some [''posts'']) (Some 5)) \<and>
   truthyNumber (Some 10) \<and>
   cte_name (projr (createSelectStatement exampleEnv users (Some [(''name'', VStr ''Alice'')]) (Some 10) None
            None None None (Some [''posts'']) (Some 5))) = ''users'' \<and>
   q_limit (inner (projr (createSelectStatement exampleEnv users (Some [(''name'', VStr ''Alice'')]) (Some 10)
            None None None None (Some [''posts'']) (Some 5)))) = Some 10 \<and>
   q_wheres (inner (projr (createSelectStatement exampleEnv users (Some [(''name'', VStr ''Alice'')]) (Some 10)
            None None None None (Some [''posts'']) (Some 5)))) = [Where ''users.name'' (VStr ''Alice'')] \<and>
   q_joins (inner (projr (createSelectStatement exampleEnv users (Some [(''name'', VStr ''Alice'')]) (Some 10)
            None None None None (Some [''posts'']) (Some 5)))) = [] \<and>
   q_joins (outer (projr (createSelectStatement exampleEnv users (Some [(''name'', VStr ''Alice'')]) (Some 10)
            None None None None (Some [''posts'']) (Some 5)))) =
     [Join LeftOuterJoin ''posts as users_posts'' ''users.id'' ''users_posts.author_id''] \<and>
   q_wheres (outer (projr (createSelectStatement exampleEnv users (Some [(''name'', VStr ''Alice'')]) (Some 10)
            None None None None (Some [''posts'']) (Some 5)))) = []"
proof -
  let ?R = "createSelectStatement exampleEnv users (Some [(''name'', VStr ''Alice'')]) (Some 10) None None None
            None (Some [''posts'']) (Some 5)"
  have eq: "?R = Inr (projr ?R)" using example_fetch_posts by simp
  have 1: "truthyNumber (Some 10)" by code_simp
  have 2: "q_wheres (inner (projr ?R)) = [Where ''users.name'' (VStr ''Alice'')]" by code_simp
  have 3: "q_joins (inner (projr ?R)) = []" by code_simp
  have 4: "q_joins (outer (projr ?R)) =
     [Join LeftOuterJoin ''posts as users_posts'' ''users.id'' ''users_posts.author_id'']" by code_simp
  have 5: "tname users = ''users''" by code_simp
  have 6: "positive (Some 10)" by code_simp
  have 7: "cte_name (projr ?R) = ''users''" by code_simp
  from limit_is_applied_in_cte[OF eq] 1 2 3 4 5 6 7 example_fetch_posts
  show ?thesis by simp
qed

lemma falsy_entry_joins_nothing:
  "\<not> namedInWhere (Some [(''posts'', VNull)]) userPosts \<and>
   \<not> isl (createSelectStatement exampleEnv users (Some [(''posts'', VNull)]) (Some 10) None None None None
            None (Some 5)) \<and>
   q_joins (inner (projr (createSelectStatement exampleEnv users (Some [(''posts'', VNull)]) (Some 10) None
            None None None None (Some 5)))) = [] \<and>
   q_joins (outer (projr (createSelectStatement exampleEnv users (Some [(''posts'', VNull)]) (Some 10) None
            None None None None (Some 5)))) = []"
  by code_simp


end
